theory Spec2Isabelle
  imports Main "HOL-Library.AList"
begin

section \<open>Exceptions, log records and observable effects\<close>

text \<open>
  The exceptions the two modules raise, catch or let pass. Python's class hierarchy
  matters for the handlers: \<open>KeyboardInterrupt\<close>, \<open>SystemExit\<close> and
  \<open>asyncio.CancelledError\<close> derive from \<open>BaseException\<close> only, so an
  \<open>except Exception\<close> clause does not catch them. \<open>SeedboxError\<close> is declared in
  seedbox.py as a subclass of \<open>Exception\<close>; \<open>CodeSyncError\<close> (and its subclass
  \<open>GitOperationError\<close>) is imported from code\_sync.py and stands here for the whole
  family that \<open>except CodeSyncError\<close> catches. \<open>OtherException\<close> is any other
  subclass of \<open>Exception\<close> (a libtorrent \<open>RuntimeError\<close>, an \<open>OSError\<close>, ...).
\<close>

datatype exn =
    KeyboardInterrupt
  | SystemExit int
  | CancelledError
  | CodeSyncError string
  | SeedboxError string
  | OtherException string

fun is_Exception :: "exn \<Rightarrow> bool" where
  "is_Exception KeyboardInterrupt = False"
| "is_Exception (SystemExit c) = False"
| "is_Exception CancelledError = False"
| "is_Exception (CodeSyncError m) = True"
| "is_Exception (SeedboxError m) = True"
| "is_Exception (OtherException m) = True"

fun is_CodeSyncError :: "exn \<Rightarrow> bool" where
  "is_CodeSyncError (CodeSyncError m) = True"
| "is_CodeSyncError e = False"

fun is_SeedboxError :: "exn \<Rightarrow> bool" where
  "is_SeedboxError (SeedboxError m) = True"
| "is_SeedboxError e = False"

text \<open>\<open>str(e)\<close> as the f-strings of the handlers render it (the message the exception
  was built with; the handlers only ever format instances of \<open>Exception\<close>).\<close>

fun str_exn :: "exn \<Rightarrow> string" where
  "str_exn (CodeSyncError m) = m"
| "str_exn (SeedboxError m) = m"
| "str_exn (OtherException m) = m"
| "str_exn e = []"

datatype level = DEBUG | INFO | ERROR

text \<open>
  What a run does to the outside world, in order. A log record keeps the level, the
  text of the f-string with every numeric interpolation left as \<open>{}\<close>, and the numbers
  interpolated (the megabyte figure of the status line is a float rendering of the byte
  count; the record keeps the byte count). The events of seedbox.py are calls that
  completed; \<open>HasUpdatesCalled\<close> and \<open>PullUpdatesCalled\<close> record that the call was
  made, whether it then returned or raised; \<open>AsyncSleep\<close> and \<open>TimeSleep\<close> record a
  sleep that ran to its end.
\<close>

datatype event =
    Log level string "int list"
  | SessionCreated nat
  | ListenOn int int
  | SettingsApplied int
  | TorrentGenerated string
  | FileWritten string
  | TorrentAdded string nat
  | TimeSleep int
  | HasUpdatesCalled
  | PullUpdatesCalled
  | AsyncSleep int
  | SetRunning bool
  | CreateTasks
  | CancelTasks
  | ExecutorShutdown bool

datatype outcome = Returned | Raised exn | Running

section \<open>The file system seen by seedbox.py\<close>

type_synonym path = string

datatype node = Directory | RegularFile string

text \<open>An association list from path strings to what is there; the order of the list is
  the order in which the operating system lists entries.\<close>

type_synonym filesystem = "(path \<times> node) list"

definition path_exists :: "filesystem \<Rightarrow> path \<Rightarrow> bool" where
  "path_exists fs p = (map_of fs p \<noteq> None)"

definition write_file :: "filesystem \<Rightarrow> path \<Rightarrow> string \<Rightarrow> filesystem" where
  "write_file fs p bytes = AList.update p (RegularFile bytes) fs"

fun startswith :: "string \<Rightarrow> string \<Rightarrow> bool" where
  "startswith s [] = True"
| "startswith [] (c # cs) = False"
| "startswith (x # xs) (c # cs) = (x = c \<and> startswith xs cs)"

definition endswith :: "string \<Rightarrow> string \<Rightarrow> bool" where
  "endswith s suf = startswith (rev s) (rev suf)"

text \<open>\<open>Path.name\<close>: the final component.\<close>

definition path_name :: "path \<Rightarrow> string" where
  "path_name p = rev (takeWhile (\<lambda>c. c \<noteq> CHR ''/'') (rev p))"

text \<open>
  \<open>str(Path(s))\<close> on a POSIX system: the components that are empty or \<open>.\<close> are
  dropped, the root is \<open>/\<close> (\<open>//\<close> when the string begins with exactly two slashes),
  and the path without root and components is \<open>.\<close>.
\<close>

fun split_slash :: "string \<Rightarrow> string list" where
  "split_slash [] = [[]]"
| "split_slash (c # cs) =
     (if c = CHR ''/'' then [] # split_slash cs
      else (case split_slash cs of [] \<Rightarrow> [[c]] | w # ws \<Rightarrow> (c # w) # ws))"

fun join_slash :: "string list \<Rightarrow> string" where
  "join_slash [] = []"
| "join_slash [x] = x"
| "join_slash (x # y # ys) = x @ ''/'' @ join_slash (y # ys)"

definition Path :: "string \<Rightarrow> path" where
  "Path s =
     (let parts = [x \<leftarrow> split_slash s. x \<noteq> [] \<and> x \<noteq> ''.''];
          root = (if startswith s ''//'' \<and> \<not> startswith s ''///'' then ''//''
                  else if startswith s ''/'' then ''/'' else [])
      in if parts = [] \<and> root = [] then ''.'' else root @ join_slash parts)"

text \<open>\<open>glob.has_magic\<close>: the string holds one of the characters \<open>*\<close>, \<open>?\<close>,
  \<open>[\<close>.\<close>

definition has_magic :: "string \<Rightarrow> bool" where
  "has_magic s = list_ex (\<lambda>c. c = CHR ''*'' \<or> c = CHR ''?'' \<or> c = CHR ''['') s"

text \<open>
  A plain directory path: it is the string of a \<open>Path\<close>, it is neither \<open>.\<close> nor a
  root, no component of it is \<open>..\<close>, and it holds no glob metacharacter. For such a
  directory \<open>d\<close> the pattern
  \<open>str(d / "*")\<close> is \<open>d\<close>, a slash and a star, and \<open>glob\<close> matches it against the
  entries of \<open>d\<close> itself.
\<close>

definition plain_dir :: "path \<Rightarrow> bool" where
  "plain_dir d =
     (Path d = d \<and> d \<noteq> ''.'' \<and> \<not> endswith d ''/'' \<and> ''..'' \<notin> set (split_slash d)
      \<and> \<not> has_magic d)"

text \<open>The entries directly inside a directory, as full path strings.\<close>

definition entry_name :: "path \<Rightarrow> path \<Rightarrow> string option" where
  "entry_name d p =
     (if startswith p (d @ ''/'') then
        (let n = drop (length d + 1) p in
         if n \<noteq> [] \<and> CHR ''/'' \<notin> set n then Some n else None)
      else None)"

definition listdir :: "filesystem \<Rightarrow> path \<Rightarrow> path list" where
  "listdir fs d = [p \<leftarrow> map fst fs. entry_name d p \<noteq> None]"

section \<open>libtorrent and the operating system, as oracles\<close>

text \<open>
  seedbox.py calls libtorrent and opens files; each such call either completes or
  raises. The record gives the answer of every call made during session setup:
  \<open>lt_generate\<close> stands for lines 59 to 67 of \<open>_create_torrent\<close> (the torrent
  generated for a content file and a tracker, kept as the bytes of its encoding),
  \<open>open_wb\<close> for \<open>open(torrent_file, "wb")\<close>, and \<open>lt_write\<close> for
  \<open>f.write(lt.bencode(torrent))\<close> inside the \<open>with\<close> block: \<open>None\<close> when it
  completes, otherwise the exception raised and the bytes that are in the file by then
  (none when nothing was written yet). \<open>glob_other\<close> is what
  \<open>glob.glob(str(d / "*"))\<close> answers for a directory path \<open>d\<close> that is not plain:
  there \<open>glob\<close> reads the metacharacters of \<open>d\<close> as a pattern, or the pattern is
  not \<open>d\<close>, a slash and a star.
\<close>

record libtorrent =
  lt_session :: "exn + nat"
  lt_listen_on :: "int \<Rightarrow> int \<Rightarrow> exn option"
  lt_apply_settings :: "int \<Rightarrow> exn option"
  lt_generate :: "path \<Rightarrow> string \<Rightarrow> exn + string"
  open_wb :: "path \<Rightarrow> exn option"
  lt_write :: "path \<Rightarrow> (exn \<times> string) option"
  glob_other :: "path \<Rightarrow> path list"
  lt_torrent_info :: "path \<Rightarrow> exn option"
  lt_add_torrent :: "path \<Rightarrow> exn + nat"

section \<open>seedbox.py\<close>

record seedbox =
  content_dir :: path
  tracker_url :: string
  port_min :: int
  port_max :: int
  session :: "nat option"
  handles :: "(nat \<times> string) list"

definition Seedbox_init :: "path \<Rightarrow> string \<Rightarrow> int \<Rightarrow> int \<Rightarrow> seedbox" where
  "Seedbox_init cd tr pmin pmax =
     \<lparr>content_dir = Path cd, tracker_url = tr, port_min = pmin, port_max = pmax,
      session = None, handles = []\<rparr>"

definition create_torrent ::
  "libtorrent \<Rightarrow> seedbox \<Rightarrow> filesystem \<Rightarrow> path \<Rightarrow> event list \<times> (exn + path) \<times> filesystem" where
  "create_torrent lt sb fs file_path =
     (let torrent_file = file_path @ ''.torrent'' in
      if path_exists fs torrent_file then
        ([Log DEBUG (''Torrent already exists: '' @ path_name torrent_file) []],
         Inr torrent_file, fs)
      else
        (let ev = [Log INFO (''Creating torrent for: '' @ path_name file_path) []] in
         case lt_generate lt file_path (tracker_url sb) of
           Inl e \<Rightarrow> (ev, Inl e, fs)
         | Inr bytes \<Rightarrow>
             (case open_wb lt torrent_file of
                Some e \<Rightarrow> (ev @ [TorrentGenerated file_path], Inl e, fs)
              | None \<Rightarrow>
                  (case lt_write lt torrent_file of
                     Some (e, left) \<Rightarrow>
                       (ev @ [TorrentGenerated file_path], Inl e,
                        write_file fs torrent_file left)
                   | None \<Rightarrow>
                       (ev @ [TorrentGenerated file_path, FileWritten torrent_file,
                              Log INFO (''Torrent created: '' @ path_name torrent_file) []],
                        Inr torrent_file, write_file fs torrent_file bytes)))))"

definition initialize_session ::
  "libtorrent \<Rightarrow> seedbox \<Rightarrow> event list \<times> exn option \<times> seedbox" where
  "initialize_session lt sb =
     (case lt_session lt of
        Inl e \<Rightarrow> ([], Some e, sb)
      | Inr s \<Rightarrow>
          (let sb1 = sb\<lparr>session := Some s\<rparr> in
           case lt_listen_on lt (port_min sb) (port_max sb) of
             Some e \<Rightarrow> ([SessionCreated s], Some e, sb1)
           | None \<Rightarrow>
               (case lt_apply_settings lt (port_min sb) of
                  Some e \<Rightarrow>
                    ([SessionCreated s, ListenOn (port_min sb) (port_max sb)], Some e, sb1)
                | None \<Rightarrow>
                    ([SessionCreated s, ListenOn (port_min sb) (port_max sb),
                      SettingsApplied (port_min sb),
                      Log INFO ''Session initialized on ports {}-{}''
                        [port_min sb, port_max sb]],
                     None, sb1))))"

text \<open>
  \<open>glob.glob(str(self.content_dir / "*"))\<close>. For a plain directory: its entries whose
  names do not begin with a dot (the pattern \<open>*\<close> of \<open>glob\<close> does not match those),
  in the order of the listing. For any other directory path: what the oracle answers.
\<close>

definition glob_star :: "libtorrent \<Rightarrow> filesystem \<Rightarrow> path \<Rightarrow> path list" where
  "glob_star lt fs d =
     (if plain_dir d then
        [p \<leftarrow> map fst fs.
           (case entry_name d p of None \<Rightarrow> False | Some n \<Rightarrow> \<not> startswith n ''.'')]
      else glob_other lt d)"

definition eligible :: "path list \<Rightarrow> path list" where
  "eligible files = [f \<leftarrow> files. \<not> endswith f ''.torrent'']"

definition load_content_files ::
  "libtorrent \<Rightarrow> seedbox \<Rightarrow> filesystem \<Rightarrow> event list \<times> (exn + path list)" where
  "load_content_files lt sb fs =
     (if \<not> path_exists fs (content_dir sb) then
        ([], Inl (SeedboxError (''Content directory not found: '' @ content_dir sb)))
      else
        (let files = glob_star lt fs (content_dir sb);
             files = eligible files
         in if files = [] then
              ([], Inl (SeedboxError (''No files found in: '' @ content_dir sb)))
            else
              ([Log INFO ''Found {} files to seed'' [int (length files)]], Inr files)))"

text \<open>The body of the \<open>try\<close> of \<open>_add_torrents\<close> for one file.\<close>

definition add_one ::
  "libtorrent \<Rightarrow> path \<Rightarrow> seedbox \<Rightarrow> filesystem \<Rightarrow>
     event list \<times> exn option \<times> seedbox \<times> filesystem" where
  "add_one lt file_path sb fs =
     (case create_torrent lt sb fs file_path of
        (ev, Inl e, fs1) \<Rightarrow> (ev, Some e, sb, fs1)
      | (ev, Inr torrent_file, fs1) \<Rightarrow>
          (case lt_torrent_info lt torrent_file of
             Some e \<Rightarrow> (ev, Some e, sb, fs1)
           | None \<Rightarrow>
               (case lt_add_torrent lt file_path of
                  Inl e \<Rightarrow> (ev, Some e, sb, fs1)
                | Inr handle \<Rightarrow>
                    (ev @ [TorrentAdded file_path handle,
                           Log INFO (''Added to session: '' @ path_name file_path) []],
                     None,
                     sb\<lparr>handles := handles sb @ [(handle, path_name file_path)]\<rparr>,
                     fs1))))"

text \<open>The \<open>for\<close> loop of \<open>_add_torrents\<close>: an \<open>Exception\<close> is logged and the loop goes
  on; anything else leaves the loop.\<close>

fun add_torrents ::
  "libtorrent \<Rightarrow> path list \<Rightarrow> seedbox \<Rightarrow> filesystem \<Rightarrow>
     event list \<times> exn option \<times> seedbox \<times> filesystem" where
  "add_torrents lt [] sb fs = ([], None, sb, fs)"
| "add_torrents lt (file_path # files) sb fs =
     (case add_one lt file_path sb fs of
        (ev, None, sb1, fs1) \<Rightarrow>
          (case add_torrents lt files sb1 fs1 of
             (ev', r, sb2, fs2) \<Rightarrow> (ev @ ev', r, sb2, fs2))
      | (ev, Some e, sb1, fs1) \<Rightarrow>
          (if is_Exception e then
             (case add_torrents lt files sb1 fs1 of
                (ev', r, sb2, fs2) \<Rightarrow>
                  (ev @ [Log ERROR (''Failed to add '' @ path_name file_path @ '': ''
                                    @ str_exn e) []] @ ev',
                   r, sb2, fs2))
           else (ev, Some e, sb1, fs1)))"

record status =
  active :: bool
  torrents :: int
  peers :: int
  uploaded :: int

text \<open>The accumulation loop of \<open>get_status\<close>; \<open>st h\<close> is what \<open>handle.status()\<close>
  answers for handle \<open>h\<close>: the pair (\<open>total_upload\<close>, \<open>num_peers\<close>), or an exception.\<close>

fun status_totals ::
  "(nat \<Rightarrow> exn + int \<times> int) \<Rightarrow> (nat \<times> string) list \<Rightarrow> int \<Rightarrow> int \<Rightarrow> exn + int \<times> int" where
  "status_totals st [] total_upload total_peers = Inr (total_upload, total_peers)"
| "status_totals st ((h, n) # hs) total_upload total_peers =
     (case st h of
        Inl e \<Rightarrow> Inl e
      | Inr (up, np) \<Rightarrow> status_totals st hs (total_upload + up) (total_peers + np))"

definition get_status :: "(nat \<Rightarrow> exn + int \<times> int) \<Rightarrow> seedbox \<Rightarrow> exn + status" where
  "get_status st sb =
     (if handles sb = [] then
        Inr \<lparr>active = False, torrents = 0, peers = 0, uploaded = 0\<rparr>
      else
        (case status_totals st (handles sb) 0 0 of
           Inl e \<Rightarrow> Inl e
         | Inr (total_upload, total_peers) \<Rightarrow>
             Inr \<lparr>active = True, torrents = int (length (handles sb)),
                  peers = total_peers, uploaded = total_upload\<rparr>))"

text \<open>
  One pass of the \<open>while True\<close> loop of \<open>seed_content\<close> needs what the handles answer
  at that moment and how \<open>time.sleep\<close> ends (it completes, or an exception such as
  \<open>KeyboardInterrupt\<close> is raised in it).
\<close>

record tick =
  tick_status :: "nat \<Rightarrow> exn + int \<times> int"
  tick_sleep :: "exn option"

text \<open>The loop has no exit condition: it ends only by an exception. Run against a
  finite list of ticks it is still \<open>Running\<close> when the list is used up.\<close>

fun status_loop :: "seedbox \<Rightarrow> int \<Rightarrow> tick list \<Rightarrow> event list \<times> outcome" where
  "status_loop sb status_interval [] = ([], Running)"
| "status_loop sb status_interval (t # ts) =
     (case get_status (tick_status t) sb of
        Inl e \<Rightarrow> ([], Raised e)
      | Inr s \<Rightarrow>
          (let ev = [Log INFO ''Seeding: {} torrents, {} peers, {:.1f} MB uploaded''
                       [torrents s, peers s, uploaded s]] in
           case tick_sleep t of
             Some e \<Rightarrow> (ev, Raised e)
           | None \<Rightarrow>
               (case status_loop sb status_interval ts of
                  (ev', r) \<Rightarrow> (ev @ [TimeSleep status_interval] @ ev', r))))"

text \<open>The \<open>try\<close> block of \<open>seed_content\<close>.\<close>

definition seed_try ::
  "libtorrent \<Rightarrow> seedbox \<Rightarrow> filesystem \<Rightarrow> int \<Rightarrow> tick list \<Rightarrow>
     event list \<times> outcome \<times> seedbox \<times> filesystem" where
  "seed_try lt sb fs status_interval ticks =
     (let ev0 = [Log INFO ''Starting seedbox'' [],
                 Log INFO (''Content directory: '' @ content_dir sb) [],
                 Log INFO (''Tracker: '' @ tracker_url sb) []] in
      case initialize_session lt sb of
        (ev1, Some e, sb1) \<Rightarrow> (ev0 @ ev1, Raised e, sb1, fs)
      | (ev1, None, sb1) \<Rightarrow>
          (case load_content_files lt sb1 fs of
             (ev2, Inl e) \<Rightarrow> (ev0 @ ev1 @ ev2, Raised e, sb1, fs)
           | (ev2, Inr files) \<Rightarrow>
               (case add_torrents lt files sb1 fs of
                  (ev3, Some e, sb2, fs2) \<Rightarrow> (ev0 @ ev1 @ ev2 @ ev3, Raised e, sb2, fs2)
                | (ev3, None, sb2, fs2) \<Rightarrow>
                    (if handles sb2 = [] then
                       (ev0 @ ev1 @ ev2 @ ev3,
                        Raised (SeedboxError ''No torrents loaded''), sb2, fs2)
                     else
                       (case status_loop sb2 status_interval ticks of
                          (ev5, r) \<Rightarrow>
                            (ev0 @ ev1 @ ev2 @ ev3
                               @ [Log INFO ''Seeding {} torrents''
                                    [int (length (handles sb2))]]
                               @ ev5,
                             r, sb2, fs2))))))"

text \<open>The handlers of \<open>seed_content\<close>, in the source's order.\<close>

fun seed_except :: "outcome \<Rightarrow> event list \<times> outcome" where
  "seed_except (Raised KeyboardInterrupt) = ([Log INFO ''Seedbox interrupted'' []], Returned)"
| "seed_except (Raised e) =
     (if is_Exception e then
        ([Log ERROR (''Seedbox error: '' @ str_exn e) []],
         Raised (SeedboxError (''Seeding failed: '' @ str_exn e)))
      else ([], Raised e))"
| "seed_except r = ([], r)"

definition seed_finally :: "outcome \<Rightarrow> seedbox \<Rightarrow> event list" where
  "seed_finally r sb =
     (if r \<noteq> Running \<and> session sb \<noteq> None then [Log INFO ''Stopping seedbox'' []] else [])"

definition seed_content ::
  "libtorrent \<Rightarrow> seedbox \<Rightarrow> filesystem \<Rightarrow> int \<Rightarrow> tick list \<Rightarrow>
     event list \<times> outcome \<times> seedbox \<times> filesystem" where
  "seed_content lt sb fs status_interval ticks =
     (case seed_try lt sb fs status_interval ticks of
        (ev, r, sb1, fs1) \<Rightarrow>
          (case seed_except r of
             (ev_h, r1) \<Rightarrow> (ev @ ev_h @ seed_finally r1 sb1, r1, sb1, fs1)))"

section \<open>main.py\<close>

text \<open>config.py is not among the sources: the constants of \<open>Config\<close> that main.py
  reads are the fields of a record, and every statement holds for every value of them.\<close>

record config =
  EXIT_SUCCESS :: int
  EXIT_FAILURE :: int
  EXIT_RESTART :: int
  UPDATE_CHECK_INTERVAL :: int
  HEARTBEAT_INTERVAL :: int
  SEEDBOX_STATUS_INTERVAL :: int
  REPO_URL :: string
  REPO_BRANCH :: string
  CONTENT_DIR :: string

text \<open>The one field of \<open>Orchestrator\<close> that its methods read and write.\<close>

record orchestrator =
  running :: bool

definition handle_shutdown :: "int \<Rightarrow> orchestrator \<Rightarrow> event list \<times> orchestrator" where
  "handle_shutdown signum st =
     ([Log INFO ''Received signal {}, initiating shutdown'' [signum]], st\<lparr>running := False\<rparr>)"

text \<open>
  A coroutine of main.py gives control away only at its \<open>await asyncio.sleep\<close>. What
  happens while it is suspended there is the environment's: the signals handled in the
  meantime (each runs \<open>_handle_shutdown\<close>), and how the await ends: the sleep runs to
  its end (\<open>Slept\<close>), the task is cancelled and \<open>CancelledError\<close> is raised at the
  await (\<open>Cancelled\<close>), or the observation stops while the task is still in its sleep
  (\<open>Sleeping\<close>).
\<close>

datatype wake = Slept | Cancelled | Sleeping

record pause =
  signals :: "int list"
  wake :: wake

fun deliver :: "int list \<Rightarrow> orchestrator \<Rightarrow> event list \<times> orchestrator" where
  "deliver [] st = ([], st)"
| "deliver (signum # ns) st =
     (case handle_shutdown signum st of
        (ev, st1) \<Rightarrow> (case deliver ns st1 of (ev', st2) \<Rightarrow> (ev @ ev', st2)))"

text \<open>What the two calls to \<open>CodeSync\<close> answer in one pass of the loop
  (code\_sync.py is not among the sources).\<close>

record poll =
  has_updates :: "exn + bool"
  pull_updates :: "exn option"

text \<open>The \<open>try\<close> statement in the loop of \<open>check_for_updates\<close>: the events, and the
  exception that leaves it, if one does.\<close>

definition check_try :: "config \<Rightarrow> poll \<Rightarrow> event list \<times> exn option" where
  "check_try cfg p =
     (let handler = (\<lambda>ev e.
            if is_CodeSyncError e
            then (ev @ [Log ERROR (''Code sync error: '' @ str_exn e) []], None)
            else (ev, Some e))
      in case has_updates p of
           Inl e \<Rightarrow> handler [HasUpdatesCalled] e
         | Inr False \<Rightarrow> ([HasUpdatesCalled], None)
         | Inr True \<Rightarrow>
             (let ev = [HasUpdatesCalled,
                        Log INFO ''Updates detected on remote repository'' [],
                        PullUpdatesCalled] in
              case pull_updates p of
                Some e \<Rightarrow> handler ev e
              | None \<Rightarrow>
                  (ev @ [Log INFO ''Updates pulled successfully, restarting'' []],
                   Some (SystemExit (EXIT_RESTART cfg)))))"

fun check_for_updates ::
  "config \<Rightarrow> (poll \<times> pause) list \<Rightarrow> orchestrator \<Rightarrow> event list \<times> outcome \<times> orchestrator" where
  "check_for_updates cfg [] st =
     (if running st then ([], Running, st) else ([], Returned, st))"
| "check_for_updates cfg ((p, z) # rest) st =
     (if \<not> running st then ([], Returned, st)
      else
        (case check_try cfg p of
           (ev, Some e) \<Rightarrow> (ev, Raised e, st)
         | (ev, None) \<Rightarrow>
             (case deliver (signals z) st of
                (ev_s, st1) \<Rightarrow>
                  (case wake z of
                     Sleeping \<Rightarrow> (ev @ ev_s, Running, st1)
                   | Cancelled \<Rightarrow> (ev @ ev_s, Raised CancelledError, st1)
                   | Slept \<Rightarrow>
                       (case check_for_updates cfg rest st1 of
                          (ev', r, st2) \<Rightarrow>
                            (ev @ ev_s @ [AsyncSleep (UPDATE_CHECK_INTERVAL cfg)] @ ev',
                             r, st2))))))"

fun heartbeat ::
  "config \<Rightarrow> pause list \<Rightarrow> orchestrator \<Rightarrow> event list \<times> outcome \<times> orchestrator" where
  "heartbeat cfg [] st =
     (if running st then ([], Running, st) else ([], Returned, st))"
| "heartbeat cfg (z # rest) st =
     (if \<not> running st then ([], Returned, st)
      else
        (let ev = [Log INFO ''Orchestrator Running'' []] in
         case deliver (signals z) st of
           (ev_s, st1) \<Rightarrow>
             (case wake z of
                Sleeping \<Rightarrow> (ev @ ev_s, Running, st1)
              | Cancelled \<Rightarrow> (ev @ ev_s, Raised CancelledError, st1)
              | Slept \<Rightarrow>
                  (case heartbeat cfg rest st1 of
                     (ev', r, st2) \<Rightarrow>
                       (ev @ ev_s @ [AsyncSleep (HEARTBEAT_INTERVAL cfg)] @ ev', r, st2)))))"

text \<open>
  \<open>run_seedbox\<close> awaits \<open>seed_content\<close>, which runs on the executor's thread with the
  configured status interval. \<open>seed_content\<close> has no access to the orchestrator: the
  state of the orchestrator goes through unchanged. If the task is cancelled while it
  waits, \<open>CancelledError\<close> is raised at the await, and the thread goes on.
\<close>

definition run_seedbox ::
  "config \<Rightarrow> libtorrent \<Rightarrow> seedbox \<Rightarrow> filesystem \<Rightarrow> tick list \<Rightarrow> bool \<Rightarrow> orchestrator \<Rightarrow>
     event list \<times> outcome \<times> orchestrator \<times> seedbox \<times> filesystem" where
  "run_seedbox cfg lt sb fs ticks cancelled st =
     (case seed_content lt sb fs (SEEDBOX_STATUS_INTERVAL cfg) ticks of
        (ev, r, sb1, fs1) \<Rightarrow>
          (if cancelled then (ev, Raised CancelledError, st, sb1, fs1)
           else
             (case r of
                Raised e \<Rightarrow>
                  (if is_SeedboxError e then
                     (ev @ [Log ERROR (''Seedbox failed: '' @ str_exn e) []],
                      Returned, st, sb1, fs1)
                   else if is_Exception e then
                     (ev @ [Log ERROR (''Unexpected seedbox error: '' @ str_exn e) []],
                      Returned, st, sb1, fs1)
                   else (ev, Raised e, st, sb1, fs1))
              | Returned \<Rightarrow> (ev, Returned, st, sb1, fs1)
              | Running \<Rightarrow> (ev, Running, st, sb1, fs1))))"

text \<open>
  \<open>asyncio.gather(*tasks)\<close> on the outcomes of the tasks so far: it is over when every
  task has returned, and as soon as one task has raised, that exception is raised at the
  await (the other tasks are left running). Until then the awaiting coroutine stays
  suspended. The tasks are in the order of the list \<open>tasks\<close> of \<open>run\<close>.
\<close>

fun gather :: "outcome list \<Rightarrow> outcome" where
  "gather [] = Returned"
| "gather (Raised e # rs) = Raised e"
| "gather (Returned # rs) = gather rs"
| "gather (Running # rs) = (case gather rs of Raised e \<Rightarrow> Raised e | r \<Rightarrow> Running)"

text \<open>
  \<open>Orchestrator.run\<close>. \<open>g1\<close> is how the first await ends (\<open>Running\<close>: it has not
  ended), \<open>g2\<close> how the await inside \<open>finally\<close> ends, and \<open>worker\<close> the outcome of
  the call running on the executor's thread: \<open>executor.shutdown(wait=True)\<close> returns
  only when that call is over.
\<close>

definition run :: "config \<Rightarrow> outcome \<Rightarrow> outcome \<Rightarrow> outcome \<Rightarrow> event list \<times> outcome" where
  "run cfg g1 g2 worker =
     (let ev0 = [SetRunning True,
                 Log INFO ''Orchestrator starting'' [],
                 Log INFO (''Repository: '' @ REPO_URL cfg) [],
                 Log INFO (''Branch: '' @ REPO_BRANCH cfg) [],
                 Log INFO ''Update check interval: {}s'' [UPDATE_CHECK_INTERVAL cfg],
                 Log INFO (''Content directory: '' @ CONTENT_DIR cfg) [],
                 CreateTasks] in
      case g1 of
        Running \<Rightarrow> (ev0, Running)
      | _ \<Rightarrow>
          (let (ev1, pending) =
                 (case g1 of
                    Raised CancelledError \<Rightarrow>
                      ([Log INFO ''Tasks cancelled, shutting down'' []], None)
                  | Raised e \<Rightarrow> ([], Some e)
                  | _ \<Rightarrow> ([], None))
           in case g2 of
                Running \<Rightarrow> (ev0 @ ev1 @ [CancelTasks], Running)
              | Raised e2 \<Rightarrow> (ev0 @ ev1 @ [CancelTasks], Raised e2)
              | Returned \<Rightarrow>
                  (case worker of
                     Running \<Rightarrow> (ev0 @ ev1 @ [CancelTasks, ExecutorShutdown True], Running)
                   | _ \<Rightarrow>
                       (case pending of
                          Some e \<Rightarrow>
                            (ev0 @ ev1 @ [CancelTasks, ExecutorShutdown True], Raised e)
                        | None \<Rightarrow>
                            (ev0 @ ev1 @ [CancelTasks, ExecutorShutdown True,
                                          Log INFO ''Orchestrator stopped'' []],
                             Returned)))))"

text \<open>How the process ends: with an exit code, with an exception nobody caught, or not
  yet.\<close>

datatype process = Exit int | Uncaught exn | Alive

text \<open>\<open>main\<close> under \<open>sys.exit(main())\<close>: \<open>validate\<close> is what \<open>Config.validate()\<close>
  raises, if anything, and \<open>r\<close> the outcome of \<open>asyncio.run(orchestrator.run())\<close>.\<close>

fun main_except :: "config \<Rightarrow> exn \<Rightarrow> event list \<times> process" where
  "main_except cfg KeyboardInterrupt =
     ([Log INFO ''Interrupted by user'' []], Exit (EXIT_SUCCESS cfg))"
| "main_except cfg (SystemExit c) = ([], Exit c)"
| "main_except cfg e =
     (if is_Exception e
      then ([Log ERROR (''Fatal error: '' @ str_exn e) []], Exit (EXIT_FAILURE cfg))
      else ([], Uncaught e))"

definition main :: "config \<Rightarrow> exn option \<Rightarrow> outcome \<Rightarrow> event list \<times> process" where
  "main cfg validate r =
     (case validate of
        Some e \<Rightarrow> main_except cfg e
      | None \<Rightarrow>
          (case r of
             Running \<Rightarrow> ([], Alive)
           | Returned \<Rightarrow> ([], Exit (EXIT_SUCCESS cfg))
           | Raised e \<Rightarrow> main_except cfg e))"

text \<open>Counting in a trace.\<close>

definition polls :: "event list \<Rightarrow> nat" where
  "polls ev = length [e \<leftarrow> ev. e = HasUpdatesCalled]"

definition beats :: "event list \<Rightarrow> nat" where
  "beats ev = length [e \<leftarrow> ev. e = Log INFO ''Orchestrator Running'' []]"



fun is_error_record :: "event \<Rightarrow> bool" where
  "is_error_record (Log ERROR m args) = True"
| "is_error_record e = False"

section \<open>Notions used in the statements\<close>

text \<open>The selection of content files as the specification words it: the top-level
  entries of the content directory whose names do not end in \<open>.torrent\<close>.\<close>

definition spec_eligible :: "filesystem \<Rightarrow> path \<Rightarrow> path list" where
  "spec_eligible fs d = [p \<leftarrow> listdir fs d. \<not> endswith (path_name p) ''.torrent'']"

text \<open>The same without the entries whose names begin with a dot.\<close>

definition visible_eligible :: "filesystem \<Rightarrow> path \<Rightarrow> path list" where
  "visible_eligible fs d =
     [p \<leftarrow> listdir fs d.
        \<not> startswith (path_name p) ''.'' \<and> \<not> endswith (path_name p) ''.torrent'']"


text \<open>
  A pass of the loop of \<open>check_for_updates\<close> in which a call to \<open>CodeSync\<close> raises
  \<open>CodeSyncError\<close>: \<open>has_updates\<close> does, or it answers \<open>True\<close> and
  \<open>pull_updates\<close> does. A sleep is undisturbed when no signal is handled during it
  and it runs to its end.
\<close>

definition sync_fails :: "poll \<Rightarrow> bool" where
  "sync_fails p =
     (case has_updates p of
        Inl e \<Rightarrow> is_CodeSyncError e
      | Inr False \<Rightarrow> False
      | Inr True \<Rightarrow> (case pull_updates p of Some e \<Rightarrow> is_CodeSyncError e | None \<Rightarrow> False))"

definition undisturbed :: "pause \<Rightarrow> bool" where
  "undisturbed z = (signals z = [] \<and> wake z = Slept)"

text \<open>The sleeps of the poll interval and the error records in a trace.\<close>

definition sleeps :: "config \<Rightarrow> event list \<Rightarrow> nat" where
  "sleeps cfg ev = length [e \<leftarrow> ev. e = AsyncSleep (UPDATE_CHECK_INTERVAL cfg)]"

definition sync_errors :: "event list \<Rightarrow> nat" where
  "sync_errors ev = length (filter is_error_record ev)"

text \<open>The records and effects with which \<open>run\<close> begins, up to the creation of the
  three tasks.\<close>

definition startup :: "config \<Rightarrow> event list" where
  "startup cfg =
     [SetRunning True,
      Log INFO ''Orchestrator starting'' [],
      Log INFO (''Repository: '' @ REPO_URL cfg) [],
      Log INFO (''Branch: '' @ REPO_BRANCH cfg) [],
      Log INFO ''Update check interval: {}s'' [UPDATE_CHECK_INTERVAL cfg],
      Log INFO (''Content directory: '' @ CONTENT_DIR cfg) [],
      CreateTasks]"

section \<open>Concrete inputs\<close>

text \<open>A libtorrent and an operating system in which every call completes: the session
  is number 1, the metadata bytes of a file are its path, the handle of a registered
  item is the length of its path, and a pattern that is not a plain directory's matches
  nothing; and the same with the call to listen raising. A fresh seedbox on the content
  directory \<open>/c\<close>, a configuration, and an orchestrator that is running.\<close>

definition lt_ok :: libtorrent where
  "lt_ok =
     \<lparr>lt_session = Inr 1,
      lt_listen_on = (\<lambda>pmin pmax. None),
      lt_apply_settings = (\<lambda>pmin. None),
      lt_generate = (\<lambda>file_path tracker. Inr file_path),
      open_wb = (\<lambda>torrent_file. None),
      lt_write = (\<lambda>torrent_file. None),
      glob_other = (\<lambda>d. []),
      lt_torrent_info = (\<lambda>torrent_file. None),
      lt_add_torrent = (\<lambda>file_path. Inr (length file_path))\<rparr>"


definition sb0 :: seedbox where
  "sb0 = Seedbox_init ''/c'' ''udp://t'' 6881 6891"

definition cfg0 :: config where
  "cfg0 = \<lparr>EXIT_SUCCESS = 0, EXIT_FAILURE = 1, EXIT_RESTART = 42,
           UPDATE_CHECK_INTERVAL = 300, HEARTBEAT_INTERVAL = 60, SEEDBOX_STATUS_INTERVAL = 5,
           REPO_URL = ''https://example.org/r.git'', REPO_BRANCH = ''main'',
           CONTENT_DIR = ''/c''\<rparr>"

definition st_running :: orchestrator where
  "st_running = \<lparr>running = True\<rparr>"

text \<open>
  File systems: a content directory holding a dot file, a content file and the metadata
  file of another; a directory \<open>/c[1]\<close> with a content file; one without the content
  directory \<open>/c\<close>; a content directory
  holding only a metadata file; one holding a single content file; and one with three
  content files (the third a directory), a dot file and a file further down.
\<close>

definition fs_dot :: filesystem where
  "fs_dot =
     [(''/c'', Directory), (''/c/.keep'', RegularFile []), (''/c/a'', RegularFile ''xyz''),
      (''/c/b.torrent'', RegularFile ''m'')]"

definition fs_bracket :: filesystem where
  "fs_bracket = [(''/c[1]'', Directory), (''/c[1]/a'', RegularFile ''xyz'')]"

definition fs_other :: filesystem where
  "fs_other = [(''/d'', Directory), (''/d/a'', RegularFile ''xyz'')]"

definition fs_empty_dir :: filesystem where
  "fs_empty_dir = [(''/c'', Directory), (''/c/a.torrent'', RegularFile ''m'')]"

definition fs_one :: filesystem where
  "fs_one = [(''/c'', Directory), (''/c/a'', RegularFile ''xyz'')]"


text \<open>Passes of the status loop: one in which every handle answers and the sleep runs to
  its end, one in whose sleep \<open>KeyboardInterrupt\<close> is raised, and one in whose sleep
  \<open>SystemExit\<close> is raised.\<close>

definition tick_ok :: tick where
  "tick_ok = \<lparr>tick_status = (\<lambda>h. Inr (1024, 2)), tick_sleep = None\<rparr>"

definition tick_interrupt :: tick where
  "tick_interrupt = \<lparr>tick_status = (\<lambda>h. Inr (0, 0)), tick_sleep = Some KeyboardInterrupt\<rparr>"

definition tick_exit :: tick where
  "tick_exit = \<lparr>tick_status = (\<lambda>h. Inr (0, 0)), tick_sleep = Some (SystemExit 1)\<rparr>"

text \<open>
  Sleeps of a coroutine: one that runs to its end with no signal; one still going on; one
  during which signal 2 (\<open>SIGINT\<close>) is handled and which is still going on, and the
  same once it has run to its end. Polls: one that finds nothing, one that finds an
  update and pulls it, and two that fail.
\<close>

definition quiet :: pause where
  "quiet = \<lparr>signals = [], wake = Slept\<rparr>"

definition asleep :: pause where
  "asleep = \<lparr>signals = [], wake = Sleeping\<rparr>"

definition interrupted :: pause where
  "interrupted = \<lparr>signals = [2], wake = Sleeping\<rparr>"

definition interrupted_slept :: pause where
  "interrupted_slept = \<lparr>signals = [2], wake = Slept\<rparr>"

definition no_update :: poll where
  "no_update = \<lparr>has_updates = Inr False, pull_updates = None\<rparr>"

definition update_found :: poll where
  "update_found = \<lparr>has_updates = Inr True, pull_updates = None\<rparr>"

definition two_failures :: "(poll \<times> pause) list" where
  "two_failures =
     [(\<lparr>has_updates = Inl (CodeSyncError ''fetch failed''), pull_updates = None\<rparr>, quiet),
      (\<lparr>has_updates = Inr True, pull_updates = Some (CodeSyncError ''merge failed'')\<rparr>,
       quiet)]"

section \<open>Strings, paths and the file system\<close>

lemma startswith_iff: "startswith s p \<longleftrightarrow> (\<exists>r. s = p @ r)"
  by (induction s p rule: startswith.induct) auto

lemma endswith_iff: "endswith s suf \<longleftrightarrow> (\<exists>r. s = r @ suf)"
proof -
  have "endswith s suf \<longleftrightarrow> (\<exists>r. rev s = rev suf @ r)"
    by (simp add: endswith_def startswith_iff)
  also have "\<dots> \<longleftrightarrow> (\<exists>r. s = r @ suf)"
    by (metis rev_append rev_rev_ident)
  finally show ?thesis .
qed

lemma path_exists_write: "path_exists (write_file fs p b) q \<longleftrightarrow> q = p \<or> path_exists fs q"
  by (simp add: path_exists_def write_file_def update_conv')

lemma entry_name_iff:
  "entry_name d p = Some n \<longleftrightarrow> p = d @ ''/'' @ n \<and> n \<noteq> [] \<and> CHR ''/'' \<notin> set n"
  by (auto simp: entry_name_def Let_def startswith_iff)

text \<open>For an entry of a directory, the path string ends in \<open>.torrent\<close> exactly when
  the name does: the test of the source, made on the path, is a test on the name.\<close>

lemma endswith_entry:
  assumes "CHR ''/'' \<notin> set n"
  shows "endswith (d @ ''/'' @ n) ''.torrent'' \<longleftrightarrow> endswith n ''.torrent''"
proof
  assume "endswith n ''.torrent''"
  then obtain r where "n = r @ ''.torrent''"
    by (auto simp: endswith_iff)
  then have "d @ ''/'' @ n = (d @ ''/'' @ r) @ ''.torrent''"
    by simp
  then show "endswith (d @ ''/'' @ n) ''.torrent''"
    unfolding endswith_iff by blast
next
  assume "endswith (d @ ''/'' @ n) ''.torrent''"
  then obtain r where "(d @ ''/'') @ n = r @ ''.torrent''"
    by (auto simp: endswith_iff)
  then obtain us where
    us: "(d @ ''/'' = r @ us \<and> us @ n = ''.torrent'') \<or>
         ((d @ ''/'') @ us = r \<and> n = us @ ''.torrent'')"
    unfolding append_eq_append_conv2 by blast
  show "endswith n ''.torrent''"
  proof (cases "us = []")
    case True
    with us show ?thesis
      by (auto simp: endswith_iff)
  next
    case False
    from us show ?thesis
    proof
      assume a: "d @ ''/'' = r @ us \<and> us @ n = ''.torrent''"
      with False have "last us = CHR ''/''"
        by (metis last_appendR last_snoc)
      with False have "CHR ''/'' \<in> set us"
        by (metis last_in_set)
      moreover from a have "set us \<subseteq> set ''.torrent''"
        by (metis set_append Un_upper1)
      ultimately show ?thesis
        by auto
    next
      assume "(d @ ''/'') @ us = r \<and> n = us @ ''.torrent''"
      then show ?thesis
        by (auto simp: endswith_iff)
    qed
  qed
qed

lemma path_name_entry: "CHR ''/'' \<notin> set n \<Longrightarrow> path_name (d @ ''/'' @ n) = n"
proof -
  assume n: "CHR ''/'' \<notin> set n"
  have "takeWhile (\<lambda>c. c \<noteq> CHR ''/'') (rev n @ (CHR ''/'' # rev d)) = rev n"
    using n by (subst takeWhile_append2) auto
  then show ?thesis
    by (simp add: path_name_def)
qed

lemma listdir_iff:
  "p \<in> set (listdir fs d) \<longleftrightarrow>
     (\<exists>n. p \<in> fst ` set fs \<and> p = d @ ''/'' @ n \<and> n \<noteq> [] \<and> CHR ''/'' \<notin> set n)"
  by (auto simp: listdir_def entry_name_iff)

section \<open>Metadata files are reused\<close>

text \<open>
  Claim C7. Metadata-file synthesis is idempotent: for every content file path, if the
  companion \<open>.torrent\<close> file already exists, \<open>_create_torrent\<close> returns its path
  and neither regenerates nor overwrites it (its only effect is the debug record, and
  the file system is the one it was given); and whenever a first call returned a path,
  a second call, whatever libtorrent would answer then, returns the same path and leaves
  the file system as the first call left it.
\<close>

theorem create_torrent_idempotent:
  "(path_exists fs (p @ ''.torrent'') \<longrightarrow>
      create_torrent lt sb fs p =
        ([Log DEBUG (''Torrent already exists: '' @ path_name (p @ ''.torrent'')) []],
         Inr (p @ ''.torrent''), fs))
   \<and> (\<forall>ev t fs'. create_torrent lt sb fs p = (ev, Inr t, fs') \<longrightarrow>
        t = p @ ''.torrent'' \<and> path_exists fs' t \<and>
        (\<forall>lt' sb'. create_torrent lt' sb' fs' p =
           ([Log DEBUG (''Torrent already exists: '' @ path_name t) []], Inr t, fs')))"
  by (auto simp: create_torrent_def Let_def path_exists_write
           split: sum.splits option.splits if_splits)

theorem create_torrent_idempotent_witness:
  "path_exists [(''/c/a.torrent'', RegularFile ''m'')] (''/c/a'' @ ''.torrent'')
   \<and> create_torrent lt_ok sb0 [(''/c/a.torrent'', RegularFile ''m'')] ''/c/a'' =
       ([Log DEBUG ''Torrent already exists: a.torrent'' []], Inr ''/c/a.torrent'',
        [(''/c/a.torrent'', RegularFile ''m'')])
   \<and> create_torrent lt_ok sb0 [(''/c/a'', RegularFile ''xyz'')] ''/c/a'' =
       ([Log INFO ''Creating torrent for: a'' [], TorrentGenerated ''/c/a'',
         FileWritten ''/c/a.torrent'', Log INFO ''Torrent created: a.torrent'' []],
        Inr ''/c/a.torrent'',
        [(''/c/a'', RegularFile ''xyz''), (''/c/a.torrent'', RegularFile ''/c/a'')])
   \<and> create_torrent lt_ok sb0
        [(''/c/a'', RegularFile ''xyz''), (''/c/a.torrent'', RegularFile ''/c/a'')] ''/c/a'' =
       ([Log DEBUG ''Torrent already exists: a.torrent'' []], Inr ''/c/a.torrent'',
        [(''/c/a'', RegularFile ''xyz''), (''/c/a.torrent'', RegularFile ''/c/a'')])"
proof -
  have ex: "path_exists [(''/c/a.torrent'', RegularFile ''m'')] (''/c/a'' @ ''.torrent'')"
    by code_simp
  have first: "create_torrent lt_ok sb0 [(''/c/a'', RegularFile ''xyz'')] ''/c/a'' =
       ([Log INFO ''Creating torrent for: a'' [], TorrentGenerated ''/c/a'',
         FileWritten ''/c/a.torrent'', Log INFO ''Torrent created: a.torrent'' []],
        Inr ''/c/a.torrent'',
        [(''/c/a'', RegularFile ''xyz''), (''/c/a.torrent'', RegularFile ''/c/a'')])"
    by code_simp
  from create_torrent_idempotent [of "[(''/c/a.torrent'', RegularFile ''m'')]" "''/c/a''" lt_ok sb0] ex
  have a: "create_torrent lt_ok sb0 [(''/c/a.torrent'', RegularFile ''m'')] ''/c/a'' =
       ([Log DEBUG (''Torrent already exists: '' @ path_name (''/c/a'' @ ''.torrent'')) []], Inr (''/c/a'' @ ''.torrent''),
        [(''/c/a.torrent'', RegularFile ''m'')])"
    by blast
  from create_torrent_idempotent [of "[(''/c/a'', RegularFile ''xyz'')]" "''/c/a''" lt_ok sb0] first
  have b: "create_torrent lt_ok sb0
        [(''/c/a'', RegularFile ''xyz''), (''/c/a.torrent'', RegularFile ''/c/a'')] ''/c/a'' =
       ([Log DEBUG (''Torrent already exists: '' @ path_name ''/c/a.torrent'') []], Inr ''/c/a.torrent'',
        [(''/c/a'', RegularFile ''xyz''), (''/c/a.torrent'', RegularFile ''/c/a'')])"
    by blast
  have n: "path_name ''/c/a.torrent'' = ''a.torrent''"
    by code_simp
  from ex first a b n show ?thesis
    by simp
qed

section \<open>The files selected for seeding\<close>

lemma eligible_glob_eq:
  assumes "plain_dir d"
  shows "eligible (glob_star lt fs d) = visible_eligible fs d"
proof -
  have "(case entry_name d p of None \<Rightarrow> False | Some n \<Rightarrow> \<not> startswith n ''.'')
          \<and> \<not> endswith p ''.torrent''
        \<longleftrightarrow> entry_name d p \<noteq> None \<and> \<not> startswith (path_name p) ''.''
          \<and> \<not> endswith (path_name p) ''.torrent''" for p
  proof (cases "entry_name d p")
    case None
    then show ?thesis by simp
  next
    case (Some n)
    then have p: "p = d @ ''/'' @ n" and n: "CHR ''/'' \<notin> set n"
      by (simp_all add: entry_name_iff)
    have "path_name p = n"
      unfolding p using n by (rule path_name_entry)
    moreover have "endswith p ''.torrent'' \<longleftrightarrow> endswith n ''.torrent''"
      unfolding p using n by (rule endswith_entry)
    ultimately show ?thesis
      using Some by simp
  qed
  then have "[p \<leftarrow> [p \<leftarrow> map fst fs.
                    (case entry_name d p of None \<Rightarrow> False | Some n \<Rightarrow> \<not> startswith n ''.'')].
               \<not> endswith p ''.torrent'']
             = visible_eligible fs d"
    unfolding visible_eligible_def listdir_def filter_filter
    by (intro filter_cong refl) blast
  with assms show ?thesis
    by (simp add: eligible_def glob_star_def)
qed

lemma metadata_not_visible_eligible: "f @ ''.torrent'' \<notin> set (visible_eligible fs d)"
proof
  assume a: "f @ ''.torrent'' \<in> set (visible_eligible fs d)"
  then have "f @ ''.torrent'' \<in> set (listdir fs d)"
    by (simp add: visible_eligible_def)
  then obtain n where n: "f @ ''.torrent'' = d @ ''/'' @ n" "CHR ''/'' \<notin> set n"
    by (auto simp: listdir_iff)
  have "endswith (d @ ''/'' @ n) ''.torrent''"
    unfolding n(1) [symmetric] endswith_iff by blast
  with endswith_entry [OF n(2), of d] have "endswith n ''.torrent''"
    by simp
  moreover have "path_name (f @ ''.torrent'') = n"
    unfolding n(1) using n(2) by (rule path_name_entry)
  ultimately show False
    using a by (simp add: visible_eligible_def)
qed

lemma glob_star_not_plain: "\<not> plain_dir d \<Longrightarrow> glob_star lt fs d = glob_other lt d"
  by (simp add: glob_star_def)

text \<open>
  Claim C9, as amended. When the content directory exists and its path is plain (the
  string of a \<open>Path\<close>, neither \<open>.\<close> nor a root, with no component \<open>..\<close> and no
  glob metacharacter), the
  files selected for seeding are exactly the top-level entries of the directory whose
  names neither begin with a dot (the pattern \<open>*\<close> of \<open>glob\<close> does not match those)
  nor end in \<open>.torrent\<close>, in the order of the listing, and \<open>_load_content_files\<close>
  raises when there is none. No path of the form \<open>f + ".torrent"\<close> is among them, so
  a synthesized metadata file is not taken for a content item on a later run.
\<close>

theorem eligible_files_exact:
  "path_exists fs (content_dir sb) \<Longrightarrow> plain_dir (content_dir sb) \<Longrightarrow>
     snd (load_content_files lt sb fs) =
       (if visible_eligible fs (content_dir sb) = []
        then Inl (SeedboxError (''No files found in: '' @ content_dir sb))
        else Inr (visible_eligible fs (content_dir sb)))
     \<and> (\<forall>f. f @ ''.torrent'' \<notin> set (visible_eligible fs (content_dir sb)))"
  by (simp add: load_content_files_def Let_def eligible_glob_eq metadata_not_visible_eligible)

theorem eligible_files_exact_witness:
  "path_exists fs_dot (content_dir sb0)
   \<and> plain_dir (content_dir sb0)
   \<and> snd (load_content_files lt_ok sb0 fs_dot) = Inr [''/c/a'']
   \<and> visible_eligible fs_dot (content_dir sb0) = [''/c/a'']"
proof -
  have a: "path_exists fs_dot (content_dir sb0)"
    by code_simp
  have p: "plain_dir (content_dir sb0)"
    by code_simp
  have b: "visible_eligible fs_dot (content_dir sb0) = [''/c/a'']"
    by code_simp
  from eligible_files_exact [OF a p, of lt_ok] b show ?thesis
    using a p by simp
qed

text \<open>
  Claim C9 as stated fails on a dot file: \<open>/c/.keep\<close> is a top-level entry whose name
  does not end in \<open>.torrent\<close>, and it is not selected.
\<close>

theorem eligible_dotfile_counterexample:
  "spec_eligible fs_dot ''/c'' = [''/c/.keep'', ''/c/a'']
   \<and> load_content_files lt_ok (Seedbox_init ''/c'' ''udp://t'' 6881 6891) fs_dot
       = ([Log INFO ''Found {} files to seed'' [1]], Inr [''/c/a''])"
  by code_simp

text \<open>
  Outside the plain paths the selection is not the listing of the directory: \<open>/c[1]\<close>
  exists and holds a content file, but \<open>glob\<close> reads \<open>[1]\<close> as a character class,
  and with no directory \<open>/c1\<close> it finds nothing.
\<close>

lemma metacharacter_directory_example:
  "path_exists fs_bracket ''/c[1]'' \<and> \<not> plain_dir ''/c[1]''
   \<and> spec_eligible fs_bracket ''/c[1]'' = [''/c[1]/a'']
   \<and> load_content_files lt_ok (Seedbox_init ''/c[1]'' ''udp://t'' 6881 6891) fs_bracket
       = ([], Inl (SeedboxError ''No files found in: /c[1]''))"
  by code_simp

section \<open>A missing content directory\<close>

lemma initialize_session_ok:
  assumes "lt_session lt = Inr s"
    and "lt_listen_on lt (port_min sb) (port_max sb) = None"
    and "lt_apply_settings lt (port_min sb) = None"
  shows "initialize_session lt sb =
           ([SessionCreated s, ListenOn (port_min sb) (port_max sb),
             SettingsApplied (port_min sb),
             Log INFO ''Session initialized on ports {}-{}'' [port_min sb, port_max sb]],
            None, sb\<lparr>session := Some s\<rparr>)"
  using assms by (simp add: initialize_session_def)

text \<open>
  Claim C2, as amended. \<open>seed_content\<close> initialises the libtorrent session before
  it looks at the content directory. In every run in which the content directory does
  not exist and the initialisation completes, the session has been created, told to
  listen on the port range and configured before \<open>_load_content_files\<close> raises
  \<open>SeedboxError\<close>; \<open>seed_content\<close> logs the error and raises \<open>SeedboxError\<close>
  again, with the session still held by the seedbox; \<open>run_seedbox\<close> logs that error
  and returns without raising.
\<close>

theorem missing_directory_fails_after_session:
  assumes "\<not> path_exists fs (content_dir sb)"
    and "lt_session lt = Inr s"
    and "lt_listen_on lt (port_min sb) (port_max sb) = None"
    and "lt_apply_settings lt (port_min sb) = None"
  shows "seed_content lt sb fs status_interval ticks =
           ([Log INFO ''Starting seedbox'' [],
             Log INFO (''Content directory: '' @ content_dir sb) [],
             Log INFO (''Tracker: '' @ tracker_url sb) [],
             SessionCreated s, ListenOn (port_min sb) (port_max sb),
             SettingsApplied (port_min sb),
             Log INFO ''Session initialized on ports {}-{}'' [port_min sb, port_max sb],
             Log ERROR (''Seedbox error: Content directory not found: '' @ content_dir sb) [],
             Log INFO ''Stopping seedbox'' []],
            Raised (SeedboxError (''Seeding failed: Content directory not found: ''
                                  @ content_dir sb)),
            sb\<lparr>session := Some s\<rparr>, fs)
       \<and> (\<exists>ev. run_seedbox cfg lt sb fs ticks False st =
             (ev @ [Log ERROR (''Seedbox failed: Seeding failed: Content directory not found: ''
                               @ content_dir sb) []],
              Returned, st, sb\<lparr>session := Some s\<rparr>, fs))"
proof -
  have "seed_try lt sb fs status_interval ticks =
          ([Log INFO ''Starting seedbox'' [],
             Log INFO (''Content directory: '' @ content_dir sb) [],
             Log INFO (''Tracker: '' @ tracker_url sb) [],
             SessionCreated s, ListenOn (port_min sb) (port_max sb),
             SettingsApplied (port_min sb),
             Log INFO ''Session initialized on ports {}-{}'' [port_min sb, port_max sb]],
           Raised (SeedboxError (''Content directory not found: '' @ content_dir sb)),
           sb\<lparr>session := Some s\<rparr>, fs)" for status_interval
    using assms
    by (simp add: seed_try_def initialize_session_ok load_content_files_def)
  then have *: "seed_content lt sb fs status_interval ticks =
           ([Log INFO ''Starting seedbox'' [],
             Log INFO (''Content directory: '' @ content_dir sb) [],
             Log INFO (''Tracker: '' @ tracker_url sb) [],
             SessionCreated s, ListenOn (port_min sb) (port_max sb),
             SettingsApplied (port_min sb),
             Log INFO ''Session initialized on ports {}-{}'' [port_min sb, port_max sb],
             Log ERROR (''Seedbox error: Content directory not found: '' @ content_dir sb) [],
             Log INFO ''Stopping seedbox'' []],
            Raised (SeedboxError (''Seeding failed: Content directory not found: ''
                                  @ content_dir sb)),
            sb\<lparr>session := Some s\<rparr>, fs)" for status_interval
    by (simp add: seed_content_def seed_finally_def)
  show ?thesis
    by (simp add: * run_seedbox_def)
qed


theorem missing_directory_fails_after_session_witness:
  "\<not> path_exists fs_other (content_dir sb0)
   \<and> lt_session lt_ok = Inr 1
   \<and> lt_listen_on lt_ok (port_min sb0) (port_max sb0) = None
   \<and> lt_apply_settings lt_ok (port_min sb0) = None
   \<and> fst (snd (seed_content lt_ok sb0 fs_other 5 [])) =
        Raised (SeedboxError ''Seeding failed: Content directory not found: /c'')
   \<and> fst (snd (run_seedbox cfg0 lt_ok sb0 fs_other [] False \<lparr>running = True\<rparr>)) = Returned"
proof -
  have a: "\<not> path_exists fs_other (content_dir sb0)"
    by code_simp
  have b: "lt_session lt_ok = Inr 1"
    by code_simp
  have c: "lt_listen_on lt_ok (port_min sb0) (port_max sb0) = None"
    by code_simp
  have d: "lt_apply_settings lt_ok (port_min sb0) = None"
    by code_simp
  have e: "content_dir sb0 = ''/c''"
    by code_simp
  from missing_directory_fails_after_session [OF a b c d, of 5 "[]" cfg0 "\<lparr>running = True\<rparr>"]
  show ?thesis
    using a b c d e by auto
qed

text \<open>
  Claim C2 as stated fails: with no content directory at all, the first effects of
  \<open>seed_content\<close> after its three opening records are the creation of the session and
  the call to listen on ports 6881 to 6891, and the seedbox that fails holds session 1.
\<close>

theorem session_before_directory_counterexample:
  "\<not> path_exists [] (content_dir sb0)
   \<and> fst (seed_content lt_ok sb0 [] 5 []) =
       [Log INFO ''Starting seedbox'' [], Log INFO ''Content directory: /c'' [],
        Log INFO ''Tracker: udp://t'' [],
        SessionCreated 1, ListenOn 6881 6891, SettingsApplied 6881,
        Log INFO ''Session initialized on ports {}-{}'' [6881, 6891],
        Log ERROR ''Seedbox error: Content directory not found: /c'' [],
        Log INFO ''Stopping seedbox'' []]
   \<and> session (fst (snd (snd (seed_content lt_ok sb0 [] 5 [])))) = Some 1"
  by code_simp

section \<open>Failures of session setup\<close>

lemma initialize_session_fields:
  "initialize_session lt sb = (ev1, r, sb1) \<Longrightarrow>
     content_dir sb1 = content_dir sb \<and> tracker_url sb1 = tracker_url sb
     \<and> handles sb1 = handles sb"
  by (auto simp: initialize_session_def Let_def split: sum.splits option.splits)

lemma gather_bridge_returned:
  assumes "\<forall>e. u \<noteq> Raised e" and "\<forall>e. h \<noteq> Raised e" and "u = Running \<or> h = Running"
  shows "gather [u, h, Returned] = Running"
  using assms by (cases u; cases h) simp_all

lemma run_first_await: "run cfg Running g2 w = (startup cfg, Running)"
  by (simp add: run_def startup_def)

text \<open>
  Claim C6. Let the session initialise, and let the setup then fail in one of the
  declared ways: the content directory is missing, \<open>glob\<close> and the filter find no
  eligible file, or \<open>_add_torrents\<close> ends with no handle registered. Then
  \<open>seed_content\<close> raises \<open>SeedboxError\<close>, with the same trace whatever the status
  loop would have been given, so before the loop is entered, and the trace holds an
  error record. \<open>run_seedbox\<close> adds its own error record and returns normally, leaving
  the orchestrator's state as it was. With the bridge task over in this way, so long as
  one of the other two tasks is still in its loop and neither has raised, \<open>run\<close> is
  still at its first await (it has cancelled nothing and shut nothing down) and the
  process is alive; the wait is over when the other two have returned.
\<close>

theorem setup_failure_ends_only_the_bridge:
  assumes init: "initialize_session lt sb = (ev1, None, sb1)"
    and kind: "\<not> path_exists fs (content_dir sb)
               \<or> eligible (glob_star lt fs (content_dir sb)) = []
               \<or> (\<exists>ev3 sb2 fs2.
                     add_torrents lt (eligible (glob_star lt fs (content_dir sb))) sb1 fs
                       = (ev3, None, sb2, fs2) \<and> handles sb2 = [])"
  shows "\<exists>ev m sb' fs'.
           (\<forall>ticks. seed_content lt sb fs (SEEDBOX_STATUS_INTERVAL cfg) ticks
                      = (ev, Raised (SeedboxError m), sb', fs'))
         \<and> list_ex is_error_record ev
         \<and> (\<forall>ticks st. run_seedbox cfg lt sb fs ticks False st
                         = (ev @ [Log ERROR (''Seedbox failed: '' @ m) []],
                            Returned, st, sb', fs'))
         \<and> (\<forall>ticks st u h g2 w.
               (\<forall>e. u \<noteq> Raised e) \<and> (\<forall>e. h \<noteq> Raised e) \<and> (u = Running \<or> h = Running) \<longrightarrow>
                 run cfg (gather [u, h, fst (snd (run_seedbox cfg lt sb fs ticks False st))]) g2 w
                   = (startup cfg, Running)
                 \<and> main cfg None
                      (snd (run cfg
                         (gather [u, h, fst (snd (run_seedbox cfg lt sb fs ticks False st))])
                         g2 w))
                   = ([], Alive))
         \<and> (\<forall>ticks st.
               gather [Returned, Returned, fst (snd (run_seedbox cfg lt sb fs ticks False st))]
                 = Returned)"
proof -
  have cd: "content_dir sb1 = content_dir sb"
    using initialize_session_fields [OF init] by simp
  let ?files = "eligible (glob_star lt fs (content_dir sb))"
  have "\<exists>ev0 m sb' fs'. \<forall>ticks.
          seed_try lt sb fs (SEEDBOX_STATUS_INTERVAL cfg) ticks
            = (ev0, Raised (SeedboxError m), sb', fs')"
  proof (cases "path_exists fs (content_dir sb) \<and> ?files \<noteq> []")
    case False
    then show ?thesis
      by (auto simp: seed_try_def init cd load_content_files_def Let_def)
  next
    case True
    with kind obtain ev3 sb2 fs2 where
      "add_torrents lt ?files sb1 fs = (ev3, None, sb2, fs2)" "handles sb2 = []"
      by blast
    with True show ?thesis
      by (auto simp: seed_try_def init cd load_content_files_def Let_def)
  qed
  then obtain ev0 m sb' fs' where
    t: "\<And>ticks. seed_try lt sb fs (SEEDBOX_STATUS_INTERVAL cfg) ticks
                  = (ev0, Raised (SeedboxError m), sb', fs')"
    by blast
  define ev where
    "ev = ev0 @ [Log ERROR (''Seedbox error: '' @ m) []]
            @ seed_finally (Raised (SeedboxError (''Seeding failed: '' @ m))) sb'"
  have s: "seed_content lt sb fs (SEEDBOX_STATUS_INTERVAL cfg) ticks
             = (ev, Raised (SeedboxError (''Seeding failed: '' @ m)), sb', fs')" for ticks
    by (simp add: seed_content_def t ev_def)
  have e: "list_ex is_error_record ev"
    by (simp add: ev_def)
  have b: "run_seedbox cfg lt sb fs ticks False st
             = (ev @ [Log ERROR (''Seedbox failed: '' @ (''Seeding failed: '' @ m)) []],
                Returned, st, sb', fs')" for ticks st
    by (simp add: run_seedbox_def s)
  have w: "run cfg (gather [u, h, fst (snd (run_seedbox cfg lt sb fs ticks False st))]) g2 w
             = (startup cfg, Running)
           \<and> main cfg None
                (snd (run cfg
                   (gather [u, h, fst (snd (run_seedbox cfg lt sb fs ticks False st))]) g2 w))
             = ([], Alive)"
    if "(\<forall>e. u \<noteq> Raised e) \<and> (\<forall>e. h \<noteq> Raised e) \<and> (u = Running \<or> h = Running)"
    for ticks st u h g2 w
    using that gather_bridge_returned [of u h]
    by (simp add: b run_first_await main_def)
  have g: "gather [Returned, Returned, fst (snd (run_seedbox cfg lt sb fs ticks False st))]
             = Returned" for ticks st
    by (simp add: b)
  show ?thesis
    using s e b w g by blast
qed

theorem setup_failure_ends_only_the_bridge_witness:
  "initialize_session lt_ok sb0 =
     ([SessionCreated 1, ListenOn 6881 6891, SettingsApplied 6881,
       Log INFO ''Session initialized on ports {}-{}'' [6881, 6891]],
      None, sb0\<lparr>session := Some 1\<rparr>)
   \<and> path_exists fs_empty_dir (content_dir sb0)
   \<and> eligible (glob_star lt_ok fs_empty_dir (content_dir sb0)) = []
   \<and> fst (snd (seed_content lt_ok sb0 fs_empty_dir (SEEDBOX_STATUS_INTERVAL cfg0) [tick_interrupt]))
        = Raised (SeedboxError ''Seeding failed: No files found in: /c'')
   \<and> fst (snd (run_seedbox cfg0 lt_ok sb0 fs_empty_dir [tick_interrupt] False st_running))
        = Returned
   \<and> fst (snd (heartbeat cfg0 [asleep] st_running)) = Running
   \<and> main cfg0 None
        (snd (run cfg0
           (gather [Returned, fst (snd (heartbeat cfg0 [asleep] st_running)),
                    fst (snd (run_seedbox cfg0 lt_ok sb0 fs_empty_dir [tick_interrupt] False
                                st_running))])
           Returned Returned))
      = ([], Alive)"
proof -
  have a: "initialize_session lt_ok sb0 =
     ([SessionCreated 1, ListenOn 6881 6891, SettingsApplied 6881,
       Log INFO ''Session initialized on ports {}-{}'' [6881, 6891]],
      None, sb0\<lparr>session := Some 1\<rparr>)"
    by code_simp
  have b: "path_exists fs_empty_dir (content_dir sb0)"
    by code_simp
  have c: "eligible (glob_star lt_ok fs_empty_dir (content_dir sb0)) = []"
    by code_simp
  have d: "fst (snd (seed_content lt_ok sb0 fs_empty_dir (SEEDBOX_STATUS_INTERVAL cfg0) [tick_interrupt]))
        = Raised (SeedboxError ''Seeding failed: No files found in: /c'')"
    by code_simp
  have h: "fst (snd (heartbeat cfg0 [asleep] st_running)) = Running"
    by code_simp
  have k: "\<not> path_exists fs_empty_dir (content_dir sb0)
           \<or> eligible (glob_star lt_ok fs_empty_dir (content_dir sb0)) = []
           \<or> (\<exists>ev3 sb2 fs2.
                 add_torrents lt_ok (eligible (glob_star lt_ok fs_empty_dir (content_dir sb0)))
                   (sb0\<lparr>session := Some 1\<rparr>) fs_empty_dir
                   = (ev3, None, sb2, fs2) \<and> handles sb2 = [])"
    using c by simp
  from setup_failure_ends_only_the_bridge [OF a k, of cfg0]
  obtain ev m sb' fs' where
    all: "(\<forall>ticks. seed_content lt_ok sb0 fs_empty_dir (SEEDBOX_STATUS_INTERVAL cfg0) ticks
                      = (ev, Raised (SeedboxError m), sb', fs'))
         \<and> list_ex is_error_record ev
         \<and> (\<forall>ticks st. run_seedbox cfg0 lt_ok sb0 fs_empty_dir ticks False st
                         = (ev @ [Log ERROR (''Seedbox failed: '' @ m) []],
                            Returned, st, sb', fs'))
         \<and> (\<forall>ticks st u h g2 w.
               (\<forall>e. u \<noteq> Raised e) \<and> (\<forall>e. h \<noteq> Raised e) \<and> (u = Running \<or> h = Running) \<longrightarrow>
                 run cfg0
                   (gather [u, h, fst (snd (run_seedbox cfg0 lt_ok sb0 fs_empty_dir ticks False st))])
                   g2 w
                   = (startup cfg0, Running)
                 \<and> main cfg0 None
                      (snd (run cfg0
                         (gather [u, h, fst (snd (run_seedbox cfg0 lt_ok sb0 fs_empty_dir
                                                    ticks False st))])
                         g2 w))
                   = ([], Alive))
         \<and> (\<forall>ticks st.
               gather [Returned, Returned,
                       fst (snd (run_seedbox cfg0 lt_ok sb0 fs_empty_dir ticks False st))]
                 = Returned)"
    by (elim exE)
  note r = all [THEN conjunct2, THEN conjunct2, THEN conjunct1]
  note w = all [THEN conjunct2, THEN conjunct2, THEN conjunct2, THEN conjunct1]
  from r have r': "fst (snd (run_seedbox cfg0 lt_ok sb0 fs_empty_dir [tick_interrupt] False
                               st_running)) = Returned"
    by simp
  from w [rule_format, of Returned Running "[tick_interrupt]" st_running Returned Returned]
  have m: "main cfg0 None
        (snd (run cfg0
           (gather [Returned, Running,
                    fst (snd (run_seedbox cfg0 lt_ok sb0 fs_empty_dir [tick_interrupt] False
                                st_running))])
           Returned Returned))
      = ([], Alive)"
    by blast
  have "main cfg0 None
        (snd (run cfg0
           (gather [Returned, fst (snd (heartbeat cfg0 [asleep] st_running)),
                    fst (snd (run_seedbox cfg0 lt_ok sb0 fs_empty_dir [tick_interrupt] False
                                st_running))])
           Returned Returned))
      = ([], Alive)"
    unfolding h by (rule m)
  with a b c d h r' show ?thesis
    by blast
qed

section \<open>The handlers of the seeding session\<close>

lemma seed_try_loop:
  assumes "seed_try lt sb fs status_interval [] = (ev0, Running, sb1, fs1)"
    and "status_loop sb1 status_interval ticks = (ev5, r)"
  shows "seed_try lt sb fs status_interval ticks = (ev0 @ ev5, r, sb1, fs1)"
  using assms
  by (auto simp: seed_try_def Let_def split: prod.splits option.splits sum.splits if_splits)

text \<open>
  Claim C10, as amended. An exception raised by the status loop is the exception that
  leaves the \<open>try\<close> block of \<open>seed_content\<close>. Whatever leaves the \<open>try\<close> block:
  \<open>KeyboardInterrupt\<close> is swallowed, \<open>seed_content\<close> logs it and returns normally,
  neither converting nor propagating it; every other exception that is an instance of
  \<open>Exception\<close> is logged and raised again wrapped as \<open>SeedboxError\<close>; whatever else
  is raised (\<open>SystemExit\<close>, \<open>CancelledError\<close>) goes through as it is.
\<close>

theorem keyboard_interrupt_swallowed:
  "(seed_try lt sb fs status_interval [] = (ev0, Running, sb1, fs1)
      \<and> status_loop sb1 status_interval ticks = (ev5, Raised e)
    \<longrightarrow> seed_try lt sb fs status_interval ticks = (ev0 @ ev5, Raised e, sb1, fs1))
   \<and> (seed_try lt sb fs status_interval ticks = (ev, Raised e, sb2, fs2) \<longrightarrow>
        seed_content lt sb fs status_interval ticks =
          (if e = KeyboardInterrupt then
             (ev @ [Log INFO ''Seedbox interrupted'' []] @ seed_finally Returned sb2,
              Returned, sb2, fs2)
           else if is_Exception e then
             (ev @ [Log ERROR (''Seedbox error: '' @ str_exn e) []]
                 @ seed_finally (Raised (SeedboxError (''Seeding failed: '' @ str_exn e))) sb2,
              Raised (SeedboxError (''Seeding failed: '' @ str_exn e)), sb2, fs2)
           else (ev @ seed_finally (Raised e) sb2, Raised e, sb2, fs2)))"
proof (intro conjI impI)
  assume "seed_try lt sb fs status_interval [] = (ev0, Running, sb1, fs1)
            \<and> status_loop sb1 status_interval ticks = (ev5, Raised e)"
  then show "seed_try lt sb fs status_interval ticks = (ev0 @ ev5, Raised e, sb1, fs1)"
    using seed_try_loop by blast
next
  assume "seed_try lt sb fs status_interval ticks = (ev, Raised e, sb2, fs2)"
  then show "seed_content lt sb fs status_interval ticks =
          (if e = KeyboardInterrupt then
             (ev @ [Log INFO ''Seedbox interrupted'' []] @ seed_finally Returned sb2,
              Returned, sb2, fs2)
           else if is_Exception e then
             (ev @ [Log ERROR (''Seedbox error: '' @ str_exn e) []]
                 @ seed_finally (Raised (SeedboxError (''Seeding failed: '' @ str_exn e))) sb2,
              Raised (SeedboxError (''Seeding failed: '' @ str_exn e)), sb2, fs2)
           else (ev @ seed_finally (Raised e) sb2, Raised e, sb2, fs2))"
    by (cases e) (simp_all add: seed_content_def)
qed

theorem keyboard_interrupt_swallowed_witness:
  "seed_try lt_ok sb0 fs_one 5 [] =
     ([Log INFO ''Starting seedbox'' [], Log INFO ''Content directory: /c'' [],
       Log INFO ''Tracker: udp://t'' [], SessionCreated 1, ListenOn 6881 6891,
       SettingsApplied 6881,
       Log INFO ''Session initialized on ports {}-{}'' [6881, 6891],
       Log INFO ''Found {} files to seed'' [1],
       Log INFO ''Creating torrent for: a'' [], TorrentGenerated ''/c/a'',
       FileWritten ''/c/a.torrent'', Log INFO ''Torrent created: a.torrent'' [],
       TorrentAdded ''/c/a'' 4, Log INFO ''Added to session: a'' [],
       Log INFO ''Seeding {} torrents'' [1]],
      Running, sb0\<lparr>session := Some 1, handles := [(4, ''a'')]\<rparr>,
      fs_one @ [(''/c/a.torrent'', RegularFile ''/c/a'')])
   \<and> status_loop (sb0\<lparr>session := Some 1, handles := [(4, ''a'')]\<rparr>) 5 [tick_interrupt] =
       ([Log INFO ''Seeding: {} torrents, {} peers, {:.1f} MB uploaded'' [1, 0, 0]],
        Raised KeyboardInterrupt)
   \<and> fst (snd (seed_content lt_ok sb0 fs_one 5 [tick_interrupt])) = Returned"
proof -
  let ?ev0 = "[Log INFO ''Starting seedbox'' [], Log INFO ''Content directory: /c'' [],
       Log INFO ''Tracker: udp://t'' [], SessionCreated 1, ListenOn 6881 6891,
       SettingsApplied 6881,
       Log INFO ''Session initialized on ports {}-{}'' [6881, 6891],
       Log INFO ''Found {} files to seed'' [1],
       Log INFO ''Creating torrent for: a'' [], TorrentGenerated ''/c/a'',
       FileWritten ''/c/a.torrent'', Log INFO ''Torrent created: a.torrent'' [],
       TorrentAdded ''/c/a'' 4, Log INFO ''Added to session: a'' [],
       Log INFO ''Seeding {} torrents'' [1]]"
  let ?ev5 = "[Log INFO ''Seeding: {} torrents, {} peers, {:.1f} MB uploaded'' [1, 0, 0]]"
  let ?sb = "sb0\<lparr>session := Some 1, handles := [(4, ''a'')]\<rparr>"
  let ?fs = "fs_one @ [(''/c/a.torrent'', RegularFile ''/c/a'')]"
  have a: "seed_try lt_ok sb0 fs_one 5 [] = (?ev0, Running, ?sb, ?fs)"
    by code_simp
  have b: "status_loop ?sb 5 [tick_interrupt] = (?ev5, Raised KeyboardInterrupt)"
    by code_simp
  from keyboard_interrupt_swallowed
         [of lt_ok sb0 fs_one 5 ?ev0 ?sb ?fs "[tick_interrupt]" ?ev5 KeyboardInterrupt
             "?ev0 @ ?ev5" ?sb ?fs]
       a b
  have "fst (snd (seed_content lt_ok sb0 fs_one 5 [tick_interrupt])) = Returned"
    by simp
  with a b show ?thesis
    by simp
qed

text \<open>
  Claim C10 as stated fails for an exception that is not an instance of \<open>Exception\<close>:
  \<open>SystemExit\<close> raised in the sleep of the status loop leaves \<open>seed_content\<close> as it
  is, not wrapped as \<open>SeedboxError\<close>.
\<close>

theorem system_exit_not_wrapped_counterexample:
  "fst (snd (seed_content lt_ok sb0 fs_one 5 [tick_exit])) = Raised (SystemExit 1)"
  by code_simp

section \<open>Three content files\<close>















section \<open>Errors of code synchronisation\<close>

lemma polls_append: "polls (xs @ ys) = polls xs + polls ys"
  by (simp add: polls_def)

lemma sleeps_append: "sleeps cfg (xs @ ys) = sleeps cfg xs + sleeps cfg ys"
  by (simp add: sleeps_def)

lemma sync_errors_append: "sync_errors (xs @ ys) = sync_errors xs + sync_errors ys"
  by (simp add: sync_errors_def)

lemma check_try_polls: "polls (fst (check_try cfg p)) = 1"
  by (auto simp: check_try_def polls_def Let_def split: sum.splits bool.splits option.splits)

lemma check_try_fails:
  "sync_fails p \<Longrightarrow>
     \<exists>ev. check_try cfg p = (ev, None) \<and> polls ev = 1 \<and> sync_errors ev = 1 \<and> sleeps cfg ev = 0"
  by (auto simp: sync_fails_def check_try_def polls_def sync_errors_def sleeps_def Let_def
           split: sum.splits bool.splits option.splits)

lemma deliver_polls: "deliver ns st = (ev, st') \<Longrightarrow> polls ev = 0"
proof (induction ns arbitrary: st ev st')
  case Nil
  then show ?case by (simp add: polls_def)
next
  case (Cons n ns)
  obtain ev2 st2 where d: "deliver ns (st\<lparr>running := False\<rparr>) = (ev2, st2)"
    by (cases "deliver ns (st\<lparr>running := False\<rparr>)")
  with Cons.IH have "polls ev2 = 0"
    by blast
  with Cons.prems d show ?case
    by (auto simp: handle_shutdown_def polls_def)
qed

lemma check_pass_polls:
  assumes "running st"
  shows "polls (fst (check_for_updates cfg [(p, z)] st)) = 1"
proof -
  obtain ev x where t: "check_try cfg p = (ev, x)"
    by (cases "check_try cfg p")
  then have ev: "polls ev = 1"
    using check_try_polls [of cfg p] by simp
  obtain evs st1 where d: "deliver (signals z) st = (evs, st1)"
    by (cases "deliver (signals z) st")
  then have evs: "polls evs = 0"
    by (rule deliver_polls)
  have s: "polls [AsyncSleep (UPDATE_CHECK_INTERVAL cfg)] = 0"
    by (simp add: polls_def)
  show ?thesis
  proof (cases x)
    case (Some e)
    with assms t ev show ?thesis by simp
  next
    case None
    with assms t d ev evs s show ?thesis
      by (cases "wake z") (simp_all add: polls_append)
  qed
qed

lemma check_for_updates_fails:
  assumes "running st"
    and "\<forall>(p, z)\<in>set fails. sync_fails p \<and> undisturbed z"
  shows "\<exists>ev. (\<forall>rest. check_for_updates cfg (fails @ rest) st =
                  (case check_for_updates cfg rest st of (ev', r, st') \<Rightarrow> (ev @ ev', r, st')))
              \<and> polls ev = length fails \<and> sync_errors ev = length fails
              \<and> sleeps cfg ev = length fails"
  using assms(2)
proof (induction fails)
  case Nil
  show ?case
    by (rule exI [of _ "[]"]) (simp add: polls_def sync_errors_def sleeps_def)
next
  case (Cons a fails)
  obtain p z where a: "a = (p, z)"
    by (cases a)
  from Cons.prems a have pz: "sync_fails p" "signals z = []" "wake z = Slept"
    by (simp_all add: undisturbed_def)
  from pz(1) obtain ev1 where ev1: "check_try cfg p = (ev1, None)"
    "polls ev1 = 1" "sync_errors ev1 = 1" "sleeps cfg ev1 = 0"
    using check_try_fails by blast
  from Cons obtain ev2 where ev2:
    "\<And>rest. check_for_updates cfg (fails @ rest) st =
        (case check_for_updates cfg rest st of (ev', r, st') \<Rightarrow> (ev2 @ ev', r, st'))"
    "polls ev2 = length fails" "sync_errors ev2 = length fails" "sleeps cfg ev2 = length fails"
    by auto
  let ?ev = "ev1 @ [AsyncSleep (UPDATE_CHECK_INTERVAL cfg)] @ ev2"
  have "check_for_updates cfg ((a # fails) @ rest) st =
          (case check_for_updates cfg rest st of (ev', r, st') \<Rightarrow> (?ev @ ev', r, st'))" for rest
    using assms(1) by (simp add: a ev1 pz ev2 split: prod.splits)
  moreover have "polls ?ev = length (a # fails)" "sync_errors ?ev = length (a # fails)"
    "sleeps cfg ?ev = length (a # fails)"
    using ev1 ev2
    by (simp_all add: polls_append sync_errors_append sleeps_append)
       (simp_all add: polls_def sync_errors_def sleeps_def)
  ultimately show ?case
    by blast
qed

text \<open>
  Claim C4. Let the orchestrator be running and let \<open>N\<close> consecutive passes of the
  loop each have a \<open>CodeSync\<close> call raise \<open>CodeSyncError\<close>, with undisturbed sleeps.
  Then after these passes \<open>check_for_updates\<close> is still in its loop (it has neither
  returned nor raised), it has made \<open>N\<close> polls, logged \<open>N\<close> errors and slept the
  configured interval \<open>N\<close> times; and whatever the next pass brings, with it exactly
  \<open>N + 1\<close> polls have been made.
\<close>

theorem sync_errors_never_halt:
  assumes "running st"
    and "\<forall>(p, z)\<in>set fails. sync_fails p \<and> undisturbed z"
  shows "\<exists>ev. check_for_updates cfg fails st = (ev, Running, st)
              \<and> polls ev = length fails
              \<and> sync_errors ev = length fails
              \<and> sleeps cfg ev = length fails
              \<and> (\<forall>p z. polls (fst (check_for_updates cfg (fails @ [(p, z)]) st))
                          = length fails + 1)"
proof -
  from check_for_updates_fails [OF assms, of cfg] obtain ev where
    ev: "\<And>rest. check_for_updates cfg (fails @ rest) st =
           (case check_for_updates cfg rest st of (ev', r, st') \<Rightarrow> (ev @ ev', r, st'))"
    and n: "polls ev = length fails" "sync_errors ev = length fails"
           "sleeps cfg ev = length fails"
    by blast
  have "check_for_updates cfg fails st = (ev, Running, st)"
    using ev [of "[]"] assms(1) by simp
  moreover have "polls (fst (check_for_updates cfg (fails @ [(p, z)]) st)) = length fails + 1"
    for p z
  proof -
    obtain e1 r1 s1 where c: "check_for_updates cfg [(p, z)] st = (e1, r1, s1)"
      by (cases "check_for_updates cfg [(p, z)] st")
    with check_pass_polls [OF assms(1), of cfg p z] have "polls e1 = 1"
      by simp
    with n(1) show ?thesis
      by (simp add: ev [of "[(p, z)]"] c polls_append del: check_for_updates.simps)
  qed
  ultimately show ?thesis
    using n by blast
qed

theorem sync_errors_never_halt_witness:
  "running st_running
   \<and> list_all (\<lambda>(p, z). sync_fails p \<and> undisturbed z) two_failures
   \<and> check_for_updates cfg0 two_failures st_running =
       ([HasUpdatesCalled, Log ERROR ''Code sync error: fetch failed'' [], AsyncSleep 300,
         HasUpdatesCalled, Log INFO ''Updates detected on remote repository'' [],
         PullUpdatesCalled, Log ERROR ''Code sync error: merge failed'' [], AsyncSleep 300],
        Running, st_running)
   \<and> polls (fst (check_for_updates cfg0 two_failures st_running)) = 2
   \<and> polls (fst (check_for_updates cfg0
               (two_failures @ [(\<lparr>has_updates = Inr False, pull_updates = None\<rparr>, quiet)])
               st_running)) = 3"
proof -
  have a: "running st_running"
    by code_simp
  have b: "list_all (\<lambda>(p, z). sync_fails p \<and> undisturbed z) two_failures"
    by code_simp
  then have b': "\<forall>(p, z)\<in>set two_failures. sync_fails p \<and> undisturbed z"
    by (simp add: list_all_iff)
  have c: "check_for_updates cfg0 two_failures st_running =
       ([HasUpdatesCalled, Log ERROR ''Code sync error: fetch failed'' [], AsyncSleep 300,
         HasUpdatesCalled, Log INFO ''Updates detected on remote repository'' [],
         PullUpdatesCalled, Log ERROR ''Code sync error: merge failed'' [], AsyncSleep 300],
        Running, st_running)"
    by code_simp
  have l: "length two_failures = 2"
    by code_simp
  from sync_errors_never_halt [OF a b', of cfg0] l
  have "polls (fst (check_for_updates cfg0 two_failures st_running)) = 2"
    and "polls (fst (check_for_updates cfg0
               (two_failures @ [(\<lparr>has_updates = Inr False, pull_updates = None\<rparr>, quiet)])
               st_running)) = 3"
    by auto
  with a b c show ?thesis
    by simp
qed

section \<open>The stop flag\<close>

lemma deliver_running:
  "snd (deliver ns st) = (if ns = [] then st else st\<lparr>running := False\<rparr>)"
proof (induction ns arbitrary: st)
  case Nil
  then show ?case by simp
next
  case (Cons n ns)
  from Cons [of "st\<lparr>running := False\<rparr>"] show ?case
    by (cases "deliver ns (st\<lparr>running := False\<rparr>)") (simp add: handle_shutdown_def)
qed

lemma deliver_beats: "deliver ns st = (ev, st') \<Longrightarrow> beats ev = 0"
proof (induction ns arbitrary: st ev st')
  case Nil
  then show ?case by (simp add: beats_def)
next
  case (Cons n ns)
  obtain ev2 st2 where d: "deliver ns (st\<lparr>running := False\<rparr>) = (ev2, st2)"
    by (cases "deliver ns (st\<lparr>running := False\<rparr>)")
  with Cons.IH have "beats ev2 = 0"
    by blast
  with Cons.prems d show ?case
    by (auto simp: handle_shutdown_def beats_def)
qed

lemma stopped_loops:
  "\<not> running st \<Longrightarrow>
     check_for_updates cfg its st = ([], Returned, st) \<and> heartbeat cfg zs st = ([], Returned, st)"
  by (cases its; cases zs) auto

lemma heartbeat_signal:
  assumes "running st" and "signals z \<noteq> []"
  shows "heartbeat cfg (z # zs) st =
           (case wake z of
              Slept \<Rightarrow>
                (Log INFO ''Orchestrator Running'' [] # fst (deliver (signals z) st)
                   @ [AsyncSleep (HEARTBEAT_INTERVAL cfg)],
                 Returned, st\<lparr>running := False\<rparr>)
            | Cancelled \<Rightarrow>
                (Log INFO ''Orchestrator Running'' [] # fst (deliver (signals z) st),
                 Raised CancelledError, st\<lparr>running := False\<rparr>)
            | Sleeping \<Rightarrow>
                (Log INFO ''Orchestrator Running'' [] # fst (deliver (signals z) st),
                 Running, st\<lparr>running := False\<rparr>))"
proof -
  obtain ev st1 where d: "deliver (signals z) st = (ev, st1)"
    by (cases "deliver (signals z) st")
  with deliver_running [of "signals z" st] assms(2) have s: "st1 = st\<lparr>running := False\<rparr>"
    by simp
  have "heartbeat cfg zs (st\<lparr>running := False\<rparr>) = ([], Returned, st\<lparr>running := False\<rparr>)"
    using stopped_loops [of "st\<lparr>running := False\<rparr>"] by simp
  with assms(1) d s show ?thesis
    by (cases "wake z") (simp_all add: Let_def)
qed

lemma check_signal:
  assumes "running st" and "signals z \<noteq> []" and "check_try cfg p = (ev, None)"
  shows "check_for_updates cfg ((p, z) # its) st =
           (case wake z of
              Slept \<Rightarrow>
                (ev @ fst (deliver (signals z) st) @ [AsyncSleep (UPDATE_CHECK_INTERVAL cfg)],
                 Returned, st\<lparr>running := False\<rparr>)
            | Cancelled \<Rightarrow>
                (ev @ fst (deliver (signals z) st), Raised CancelledError,
                 st\<lparr>running := False\<rparr>)
            | Sleeping \<Rightarrow>
                (ev @ fst (deliver (signals z) st), Running, st\<lparr>running := False\<rparr>))"
proof -
  obtain evs st1 where d: "deliver (signals z) st = (evs, st1)"
    by (cases "deliver (signals z) st")
  with deliver_running [of "signals z" st] assms(2) have s: "st1 = st\<lparr>running := False\<rparr>"
    by simp
  have "check_for_updates cfg its (st\<lparr>running := False\<rparr>)
          = ([], Returned, st\<lparr>running := False\<rparr>)"
    using stopped_loops [of "st\<lparr>running := False\<rparr>"] by simp
  with assms(1,3) d s show ?thesis
    by (cases "wake z") simp_all
qed

text \<open>
  Claim C5, as amended. Once the flag \<open>running\<close> is false, \<open>check_for_updates\<close>
  and \<open>heartbeat\<close> begin no new pass of their loops: resumed at the loop test they
  return at once, with no call to \<open>has_updates\<close> and no heartbeat record, whatever
  the environment would have answered. If a signal is handled during the sleep of a pass,
  the flag is false when the sleep ends and the coroutine returns after that sleep, with
  nothing issued after it. The status loop of \<open>seed_content\<close>, on the worker thread,
  is a \<open>while True\<close> that does not read the flag: \<open>run_seedbox\<close> does the same with
  the flag false as with the flag as it was.
\<close>

theorem stop_flag_stops_cooperative_loops:
  "(\<not> running st \<longrightarrow>
      check_for_updates cfg its st = ([], Returned, st)
      \<and> heartbeat cfg zs st = ([], Returned, st))
   \<and> (running st \<and> signals z \<noteq> [] \<and> wake z = Slept \<longrightarrow>
        heartbeat cfg (z # zs) st =
          (Log INFO ''Orchestrator Running'' [] # fst (deliver (signals z) st)
             @ [AsyncSleep (HEARTBEAT_INTERVAL cfg)],
           Returned, st\<lparr>running := False\<rparr>)
        \<and> (check_try cfg p = (ev, None) \<longrightarrow>
             check_for_updates cfg ((p, z) # its) st =
               (ev @ fst (deliver (signals z) st) @ [AsyncSleep (UPDATE_CHECK_INTERVAL cfg)],
                Returned, st\<lparr>running := False\<rparr>)))
   \<and> run_seedbox cfg lt sb fs ticks c (st\<lparr>running := False\<rparr>) =
       (case run_seedbox cfg lt sb fs ticks c st of
          (ev', r, st', sb', fs') \<Rightarrow> (ev', r, st'\<lparr>running := False\<rparr>, sb', fs'))"
proof (intro conjI impI)
  assume "\<not> running st"
  then show "check_for_updates cfg its st = ([], Returned, st)"
    and "heartbeat cfg zs st = ([], Returned, st)"
    using stopped_loops by blast+
next
  assume a: "running st \<and> signals z \<noteq> [] \<and> wake z = Slept"
  then show "heartbeat cfg (z # zs) st =
          (Log INFO ''Orchestrator Running'' [] # fst (deliver (signals z) st)
             @ [AsyncSleep (HEARTBEAT_INTERVAL cfg)],
           Returned, st\<lparr>running := False\<rparr>)"
    using heartbeat_signal [of st z cfg zs] by simp
  assume "check_try cfg p = (ev, None)"
  with a show "check_for_updates cfg ((p, z) # its) st =
               (ev @ fst (deliver (signals z) st) @ [AsyncSleep (UPDATE_CHECK_INTERVAL cfg)],
                Returned, st\<lparr>running := False\<rparr>)"
    using check_signal [of st z cfg p ev its] by simp
next
  show "run_seedbox cfg lt sb fs ticks c (st\<lparr>running := False\<rparr>) =
       (case run_seedbox cfg lt sb fs ticks c st of
          (ev', r, st', sb', fs') \<Rightarrow> (ev', r, st'\<lparr>running := False\<rparr>, sb', fs'))"
    by (auto simp: run_seedbox_def split: prod.splits outcome.splits)
qed

theorem stop_flag_stops_cooperative_loops_witness:
  "\<not> running (st_running\<lparr>running := False\<rparr>)
   \<and> check_for_updates cfg0 [(update_found, quiet)] (st_running\<lparr>running := False\<rparr>)
       = ([], Returned, st_running\<lparr>running := False\<rparr>)
   \<and> heartbeat cfg0 [quiet, quiet] (st_running\<lparr>running := False\<rparr>)
       = ([], Returned, st_running\<lparr>running := False\<rparr>)
   \<and> running st_running \<and> signals interrupted_slept \<noteq> [] \<and> wake interrupted_slept = Slept
   \<and> heartbeat cfg0 [interrupted_slept, quiet, quiet] st_running =
       ([Log INFO ''Orchestrator Running'' [],
         Log INFO ''Received signal {}, initiating shutdown'' [2], AsyncSleep 60],
        Returned, \<lparr>running = False\<rparr>)
   \<and> check_try cfg0 no_update = ([HasUpdatesCalled], None)
   \<and> check_for_updates cfg0 [(no_update, interrupted_slept), (update_found, quiet)] st_running =
       ([HasUpdatesCalled, Log INFO ''Received signal {}, initiating shutdown'' [2],
         AsyncSleep 300],
        Returned, \<lparr>running = False\<rparr>)"
proof -
  have a: "\<not> running (st_running\<lparr>running := False\<rparr>)"
    by code_simp
  have b: "running st_running \<and> signals interrupted_slept \<noteq> [] \<and> wake interrupted_slept = Slept"
    by code_simp
  have c: "check_try cfg0 no_update = ([HasUpdatesCalled], None)"
    by code_simp
  have d: "fst (deliver (signals interrupted_slept) st_running)
             = [Log INFO ''Received signal {}, initiating shutdown'' [2]]"
    "st_running\<lparr>running := False\<rparr> = \<lparr>running = False\<rparr>"
    "HEARTBEAT_INTERVAL cfg0 = 60" "UPDATE_CHECK_INTERVAL cfg0 = 300"
    by code_simp+
  note t1 = stop_flag_stops_cooperative_loops
              [of "st_running\<lparr>running := False\<rparr>" cfg0 "[(update_found, quiet)]"
                  "[quiet, quiet]"]
  note t2 = stop_flag_stops_cooperative_loops
              [of st_running cfg0 "[(update_found, quiet)]" "[quiet, quiet]"
                  interrupted_slept no_update "[HasUpdatesCalled]"]
  from t1 a have
    "check_for_updates cfg0 [(update_found, quiet)] (st_running\<lparr>running := False\<rparr>)
       = ([], Returned, st_running\<lparr>running := False\<rparr>)"
    "heartbeat cfg0 [quiet, quiet] (st_running\<lparr>running := False\<rparr>)
       = ([], Returned, st_running\<lparr>running := False\<rparr>)"
    by blast+
  moreover from t2 b c have
    "heartbeat cfg0 [interrupted_slept, quiet, quiet] st_running =
       (Log INFO ''Orchestrator Running'' [] # fst (deliver (signals interrupted_slept) st_running)
          @ [AsyncSleep (HEARTBEAT_INTERVAL cfg0)],
        Returned, st_running\<lparr>running := False\<rparr>)"
    "check_for_updates cfg0 [(no_update, interrupted_slept), (update_found, quiet)] st_running =
       ([HasUpdatesCalled] @ fst (deliver (signals interrupted_slept) st_running)
          @ [AsyncSleep (UPDATE_CHECK_INTERVAL cfg0)],
        Returned, st_running\<lparr>running := False\<rparr>)"
    by blast+
  ultimately show ?thesis
    using a b c by (simp add: d)
qed

text \<open>
  Claim C5 as stated fails for the status loop: with the flag false from the start, the
  seeding session still sets up and its loop begins two passes, each with a status record
  and a sleep, and is still running.
\<close>

theorem status_loop_ignores_flag_counterexample:
  "running \<lparr>running = False\<rparr> = False
   \<and> fst (run_seedbox cfg0 lt_ok sb0 fs_one [tick_ok, tick_ok] False \<lparr>running = False\<rparr>) =
       [Log INFO ''Starting seedbox'' [], Log INFO ''Content directory: /c'' [],
        Log INFO ''Tracker: udp://t'' [], SessionCreated 1, ListenOn 6881 6891,
        SettingsApplied 6881,
        Log INFO ''Session initialized on ports {}-{}'' [6881, 6891],
        Log INFO ''Found {} files to seed'' [1],
        Log INFO ''Creating torrent for: a'' [], TorrentGenerated ''/c/a'',
        FileWritten ''/c/a.torrent'', Log INFO ''Torrent created: a.torrent'' [],
        TorrentAdded ''/c/a'' 4, Log INFO ''Added to session: a'' [],
        Log INFO ''Seeding {} torrents'' [1],
        Log INFO ''Seeding: {} torrents, {} peers, {:.1f} MB uploaded'' [1, 2, 1024],
        TimeSleep 5,
        Log INFO ''Seeding: {} torrents, {} peers, {:.1f} MB uploaded'' [1, 2, 1024],
        TimeSleep 5]
   \<and> fst (snd (run_seedbox cfg0 lt_ok sb0 fs_one [tick_ok, tick_ok] False \<lparr>running = False\<rparr>))
       = Running"
  by code_simp

section \<open>An interrupt during the sleep of the heartbeat\<close>

lemma gather_waits:
  "(\<forall>e. u \<noteq> Raised e) \<Longrightarrow> (\<forall>e. s \<noteq> Raised e) \<Longrightarrow> gather [u, Running, s] = Running"
  by (cases u; cases s) simp_all

lemma run_waiting: "run cfg Running g2 w = (startup cfg, Running)"
  by (simp add: run_def startup_def)

text \<open>
  Claim C3, as amended. If a signal is handled while \<open>heartbeat\<close> is in its sleep, the
  flag \<open>running\<close> becomes false. While the sleep goes on, the heartbeat task is still
  suspended in it; when the sleep has run to its end the task returns, having emitted its
  one record before the sleep and none after. \<open>_handle_shutdown\<close> cancels nothing: so
  long as the heartbeat task is in its sleep and no task has raised, the \<open>gather\<close> that
  \<open>run\<close> awaits is not over, and \<open>run\<close> has done nothing beyond its start: it has
  not entered its \<open>finally\<close> clause.
\<close>

theorem interrupt_mid_sleep:
  assumes "running st" and "signals z \<noteq> []"
  shows "running (snd (deliver (signals z) st)) = False
       \<and> (wake z = Sleeping \<longrightarrow>
            heartbeat cfg (z # zs) st =
              (Log INFO ''Orchestrator Running'' [] # fst (deliver (signals z) st),
               Running, st\<lparr>running := False\<rparr>))
       \<and> (wake z = Slept \<longrightarrow>
            heartbeat cfg (z # zs) st =
              (Log INFO ''Orchestrator Running'' [] # fst (deliver (signals z) st)
                 @ [AsyncSleep (HEARTBEAT_INTERVAL cfg)],
               Returned, st\<lparr>running := False\<rparr>)
            \<and> beats (fst (heartbeat cfg (z # zs) st)) = 1)
       \<and> ((\<forall>e. u \<noteq> Raised e) \<and> (\<forall>e. s \<noteq> Raised e) \<longrightarrow>
            gather [u, Running, s] = Running
            \<and> run cfg (gather [u, Running, s]) g2 w = (startup cfg, Running))"
proof -
  have r: "running (snd (deliver (signals z) st)) = False"
    using assms(2) by (simp add: deliver_running)
  obtain ev st1 where d: "deliver (signals z) st = (ev, st1)"
    by (cases "deliver (signals z) st")
  then have b: "beats ev = 0"
    by (rule deliver_beats)
  have "beats (Log INFO ''Orchestrator Running'' [] # ev @ [AsyncSleep (HEARTBEAT_INTERVAL cfg)])
          = 1"
    using b by (simp add: beats_def)
  with r d show ?thesis
    using heartbeat_signal [OF assms, of cfg zs] gather_waits [of u s] run_waiting [of cfg g2 w]
    by auto
qed

theorem interrupt_mid_sleep_witness:
  "running st_running \<and> signals interrupted_slept \<noteq> []
   \<and> heartbeat cfg0 [interrupted_slept, quiet, quiet] st_running =
       ([Log INFO ''Orchestrator Running'' [],
         Log INFO ''Received signal {}, initiating shutdown'' [2], AsyncSleep 60],
        Returned, \<lparr>running = False\<rparr>)
   \<and> beats (fst (heartbeat cfg0 [interrupted_slept, quiet, quiet] st_running)) = 1"
proof -
  have a: "running st_running"
    by code_simp
  have b: "signals interrupted_slept \<noteq> []"
    by code_simp
  have c: "wake interrupted_slept = Slept"
    by code_simp
  have d: "fst (deliver (signals interrupted_slept) st_running)
             = [Log INFO ''Received signal {}, initiating shutdown'' [2]]"
    "st_running\<lparr>running := False\<rparr> = \<lparr>running = False\<rparr>"
    "HEARTBEAT_INTERVAL cfg0 = 60"
    by code_simp+
  from interrupt_mid_sleep [OF a b, of cfg0 "[quiet, quiet]"] c
  have "heartbeat cfg0 [interrupted_slept, quiet, quiet] st_running =
          (Log INFO ''Orchestrator Running'' []
             # fst (deliver (signals interrupted_slept) st_running)
             @ [AsyncSleep (HEARTBEAT_INTERVAL cfg0)],
           Returned, st_running\<lparr>running := False\<rparr>)"
    and "beats (fst (heartbeat cfg0 [interrupted_slept, quiet, quiet] st_running)) = 1"
    by blast+
  with a b show ?thesis
    by (simp add: d)
qed

text \<open>
  Claim C3 as stated fails in its last part: signal 2 arrives while the three tasks are
  suspended (the update check and the heartbeat in their sleeps, the bridge waiting for
  the seeding thread). The heartbeat task is still in its sleep, and \<open>run\<close> is still
  waiting: it has cancelled no task.
\<close>

theorem supervisor_waits_counterexample:
  "heartbeat cfg0 [interrupted] st_running =
     ([Log INFO ''Orchestrator Running'' [],
       Log INFO ''Received signal {}, initiating shutdown'' [2]],
      Running, \<lparr>running = False\<rparr>)
   \<and> snd (run cfg0
        (gather [fst (snd (check_for_updates cfg0 [(no_update, interrupted)] st_running)),
                 fst (snd (heartbeat cfg0 [interrupted] st_running)),
                 fst (snd (run_seedbox cfg0 lt_ok sb0 fs_one [tick_ok] False st_running))])
        Returned Running) = Running
   \<and> CancelTasks \<notin> set (fst (run cfg0
        (gather [fst (snd (check_for_updates cfg0 [(no_update, interrupted)] st_running)),
                 fst (snd (heartbeat cfg0 [interrupted] st_running)),
                 fst (snd (run_seedbox cfg0 lt_ok sb0 fs_one [tick_ok] False st_running))])
        Returned Running))"
  by code_simp

section \<open>Restart after an update\<close>

text \<open>With the flag set, a poll that finds an update and pulls it makes
  \<open>check_for_updates\<close> raise \<open>SystemExit(EXIT_RESTART)\<close> at once: it polls no more
  and does not sleep, whatever the environment holds next.\<close>

lemma update_raises_system_exit:
  assumes "running st" and "has_updates p = Inr True" and "pull_updates p = None"
  shows "check_for_updates cfg ((p, z) # its) st =
           ([HasUpdatesCalled, Log INFO ''Updates detected on remote repository'' [],
             PullUpdatesCalled, Log INFO ''Updates pulled successfully, restarting'' []],
            Raised (SystemExit (EXIT_RESTART cfg)), st)"
proof -
  have "check_try cfg p =
          ([HasUpdatesCalled, Log INFO ''Updates detected on remote repository'' [],
            PullUpdatesCalled, Log INFO ''Updates pulled successfully, restarting'' []],
           Some (SystemExit (EXIT_RESTART cfg)))"
    using assms(2,3) by (simp add: check_try_def)
  with assms(1) show ?thesis
    by simp
qed

text \<open>
  The exception ends the \<open>gather\<close> awaited by \<open>run\<close>, whatever the other two tasks
  are doing. \<open>run\<close> does not catch it, but its \<open>finally\<close> clause runs: the tasks are
  cancelled and awaited and the executor is shut down with \<open>wait=True\<close>. Only when the
  call on the worker thread is over does the exception leave \<open>run\<close>, and then the
  process exits with that code; while that call is running, \<open>run\<close> is still in the
  shutdown and the process is alive.
\<close>

lemma system_exit_through_run:
  "gather [Raised (SystemExit c), h, s] = Raised (SystemExit c)"
  "run cfg (Raised (SystemExit c)) Returned w =
     (startup cfg @ [CancelTasks, ExecutorShutdown True],
      if w = Running then Running else Raised (SystemExit c))"
  "main cfg None (Raised (SystemExit c)) = ([], Exit c)"
  "main cfg None (snd (run cfg (Raised (SystemExit c)) Returned Running)) = ([], Alive)"
  by (cases w; simp add: run_def startup_def main_def)+

text \<open>
  Claim C1: a defect of the code. The claim has the process exit with exactly
  \<open>EXIT_RESTART\<close>, directly, as soon as \<open>pull_updates\<close> has returned, without
  waiting for the tasks or for the worker thread; the code says so too: it logs that it
  is restarting and calls \<open>sys.exit(Config.EXIT_RESTART)\<close>. Evaluated where the
  seeding session is healthy (one content file, every libtorrent call completing,
  \<open>seed_content\<close> in its status loop after three passes, the heartbeat in its sleep):
  the poll finds an update and pulls it, \<open>check_for_updates\<close> raises
  \<open>SystemExit(42)\<close> and polls no more; \<open>run\<close> then cancels the tasks and calls
  \<open>executor.shutdown(wait=True)\<close>, which waits for a loop that has no end; \<open>run\<close>
  does not finish and the process does not exit.
\<close>

theorem restart_hangs_while_seeding:
  "check_for_updates cfg0 [(update_found, quiet), (no_update, quiet)] st_running =
     ([HasUpdatesCalled, Log INFO ''Updates detected on remote repository'' [],
       PullUpdatesCalled, Log INFO ''Updates pulled successfully, restarting'' []],
      Raised (SystemExit 42), st_running)
   \<and> fst (snd (seed_content lt_ok sb0 fs_one 5 [tick_ok, tick_ok, tick_ok])) = Running
   \<and> run cfg0
        (gather [fst (snd (check_for_updates cfg0 [(update_found, quiet), (no_update, quiet)]
                             st_running)),
                 fst (snd (heartbeat cfg0 [asleep] st_running)),
                 fst (snd (run_seedbox cfg0 lt_ok sb0 fs_one [tick_ok, tick_ok, tick_ok] False
                             st_running))])
        Returned
        (fst (snd (seed_content lt_ok sb0 fs_one 5 [tick_ok, tick_ok, tick_ok])))
      = ([SetRunning True, Log INFO ''Orchestrator starting'' [],
          Log INFO ''Repository: https://example.org/r.git'' [],
          Log INFO ''Branch: main'' [],
          Log INFO ''Update check interval: {}s'' [300],
          Log INFO ''Content directory: /c'' [], CreateTasks,
          CancelTasks, ExecutorShutdown True],
         Running)
   \<and> main cfg0 None
        (snd (run cfg0
           (gather [fst (snd (check_for_updates cfg0
                                [(update_found, quiet), (no_update, quiet)] st_running)),
                    fst (snd (heartbeat cfg0 [asleep] st_running)),
                    fst (snd (run_seedbox cfg0 lt_ok sb0 fs_one [tick_ok, tick_ok, tick_ok]
                                False st_running))])
           Returned
           (fst (snd (seed_content lt_ok sb0 fs_one 5 [tick_ok, tick_ok, tick_ok])))))
      = ([], Alive)"
  by code_simp

end
